theory Spec2Isabelle
  imports Main
begin

section \<open>Data model\<close>

text \<open>
  The handlers of \<^verbatim>\<open>routes/orders.js\<close>, \<^verbatim>\<open>routes/users.js\<close>, \<^verbatim>\<open>routes/products.js\<close> and
  \<^verbatim>\<open>routes/cart.js\<close> are embedded as functions from the request and the database state to
  a response and the new database state.

  The relational schema is not part of the sources; the tables are modelled from the
  queries the handlers issue. A table is a list of rows. A query by a unique key reads
  or writes the first row that matches, so the embedding does not depend on the primary
  keys being distinct. Identifiers are strings, as \<^verbatim>\<open>req.params.id\<close> is.

  Prices and totals are JavaScript numbers and decimal columns. Their arithmetic is not
  fixed here: every handler takes the operations it uses as a parameter (the record
  \<open>runtime\<close>), so every statement holds for any arithmetic, IEEE doubles included.
  Quantities and stock are integer columns and are modelled as unbounded integers.
  Request bodies are taken at the types the handlers expect (a quantity is a JSON
  integer, a name is a string); a field that is absent from the body is \<open>None\<close>.
  Faults of the database itself (a lost connection, a value outside a column's range)
  are not modelled.
\<close>

type_synonym ident = string

text \<open>Modelled from the spec: the \<^verbatim>\<open>Role\<close> enum of the schema (USER / SELLER / ADMIN).\<close>

datatype role = USER | SELLER | ADMIN

text \<open>
  Modelled from the spec: the tables of the relational schema, with the columns that the
  handlers read and write.
\<close>

record user =
  u_id :: ident
  u_email :: string
  u_name :: string
  u_role :: role

record 'n product =
  p_id :: ident
  p_name :: string
  p_description :: "string option"
  p_price :: 'n
  p_stock :: int
  p_imageUrl :: "string option"
  p_categoryId :: ident
  p_sellerId :: "ident option"
  p_isActive :: bool
  p_brand :: "string option"
  p_gender :: "string option"

record cart_item =
  ci_id :: ident
  ci_userId :: ident
  ci_productId :: ident
  ci_quantity :: int

record 'n order =
  o_id :: ident
  o_userId :: ident
  o_total :: 'n
  o_status :: string

record 'n order_item =
  oi_id :: ident
  oi_orderId :: ident
  oi_productId :: ident
  oi_quantity :: int
  oi_price :: 'n

record 'n state =
  users :: "user list"
  products :: "'n product list"
  cartItems :: "cart_item list"
  orders :: "'n order list"
  orderItems :: "'n order_item list"

text \<open>\<^verbatim>\<open>req.user\<close>, as the authentication middleware injects it.\<close>

record req_user =
  ru_id :: ident
  ru_role :: role

text \<open>
  The primitives of the JavaScript runtime and of the libraries that the handlers apply
  to numbers and strings: \<^verbatim>\<open>parseFloat\<close>, \<^verbatim>\<open>+\<close>, \<^verbatim>\<open>*\<close> by an integer quantity, the literal
  \<^verbatim>\<open>0\<close>, the conversion of a number to a decimal column on a write, the validator
  \<^verbatim>\<open>isDecimal\<close>, the truthiness of a value and \<^verbatim>\<open>String.prototype.toUpperCase\<close>.
\<close>

record 'n runtime =
  parseFloat :: "'n \<Rightarrow> 'n"
  num_add :: "'n \<Rightarrow> 'n \<Rightarrow> 'n"
  num_mul :: "'n \<Rightarrow> int \<Rightarrow> 'n"
  num_zero :: 'n
  toDecimal :: "'n \<Rightarrow> 'n"
  isDecimal :: "'n \<Rightarrow> bool"
  truthy :: "'n \<Rightarrow> bool"
  toUpperCase :: "string \<Rightarrow> string"

text \<open>
  A response is a status code and a JSON body. The body carries the rows the handler
  returns; the related product and category objects that \<^verbatim>\<open>include\<close> joins into a
  response are left out.
\<close>

datatype 'n body =
    ErrorMsg string
  | ValidationErrors "string list"
  | Message string
  | NullBody
  | OrderBody "'n order" "'n order_item list"
  | CartItemBody cart_item
  | ProductBody "'n product"
  | UserBody user

type_synonym 'n response = "nat \<times> 'n body"

definition server_error :: "'n response" where
  "server_error = (500, ErrorMsg ''Server error'')"

section \<open>The database client\<close>

text \<open>
  \<^verbatim>\<open>update\<close> and \<^verbatim>\<open>delete\<close> on a unique key change one row and throw when no row
  matches (\<open>None\<close>).
\<close>

fun update_first :: "('a \<Rightarrow> bool) \<Rightarrow> ('a \<Rightarrow> 'a) \<Rightarrow> 'a list \<Rightarrow> 'a list option" where
  "update_first P f [] = None"
| "update_first P f (x # xs) =
     (if P x then Some (f x # xs) else map_option ((#) x) (update_first P f xs))"

fun delete_first :: "('a \<Rightarrow> bool) \<Rightarrow> 'a list \<Rightarrow> 'a list option" where
  "delete_first P [] = None"
| "delete_first P (x # xs) =
     (if P x then Some xs else map_option ((#) x) (delete_first P xs))"

text \<open>
  The identifier a \<^verbatim>\<open>create\<close> gives the new row: one that no row of the table has. (The
  generator of the schema is not in the sources; a string longer than every identifier in
  use stands for it.)
\<close>

definition fresh_id :: "ident list \<Rightarrow> ident" where
  "fresh_id ids = replicate (Suc (foldr max (map length ids) 0)) (CHR ''c'')"

definition find_product :: "'n product list \<Rightarrow> ident \<Rightarrow> 'n product option" where
  "find_product ps i = find (\<lambda>p. p_id p = i) ps"

text \<open>
  \<^verbatim>\<open>cartItem.findMany({ where: { userId }, include: { product: true } })\<close>: the user's cart
  rows, each with its product. The relation is required, so a row whose product is
  missing makes the query throw (\<open>None\<close>).
\<close>

fun with_products :: "'n product list \<Rightarrow> cart_item list \<Rightarrow> (cart_item \<times> 'n product) list option" where
  "with_products ps [] = Some []"
| "with_products ps (c # cs) =
     (case find_product ps (ci_productId c) of
        None \<Rightarrow> None
      | Some p \<Rightarrow> map_option ((#) (c, p)) (with_products ps cs))"

definition cart_lines :: "req_user \<Rightarrow> 'n state \<Rightarrow> (cart_item \<times> 'n product) list option" where
  "cart_lines u s = with_products (products s) (filter (\<lambda>c. ci_userId c = ru_id u) (cartItems s))"

section \<open>POST /api/orders\<close>

text \<open>
  The first loop of the handler: it returns at the first line whose product has less
  stock than the line asks for (\<open>Inl\<close>, with the product's name for the message) and
  accumulates the total otherwise.
\<close>

fun check_stock :: "'n runtime \<Rightarrow> (cart_item \<times> 'n product) list \<Rightarrow> 'n \<Rightarrow> string + 'n" where
  "check_stock rt [] tot = Inr tot"
| "check_stock rt ((c, p) # ls) tot =
     (if p_stock p < ci_quantity c then Inl (p_name p)
      else check_stock rt ls (num_add rt tot (num_mul rt (parseFloat rt (p_price p)) (ci_quantity c))))"

text \<open>
  The loop inside the transaction: one \<^verbatim>\<open>orderItem.create\<close> and one
  \<^verbatim>\<open>product.update\<close> with \<^verbatim>\<open>{ stock: { decrement: item.quantity } }\<close> per cart line. The
  price and the quantity come from the lines read before the transaction; the decrement
  applies to the stock the product has now. \<open>None\<close> is a throw.
\<close>

fun place_items :: "ident \<Rightarrow> (cart_item \<times> 'n product) list \<Rightarrow> 'n state \<Rightarrow> 'n state option" where
  "place_items oid [] s = Some s"
| "place_items oid ((c, p) # ls) s =
     (let item = \<lparr> oi_id = fresh_id (map oi_id (orderItems s)), oi_orderId = oid,
                   oi_productId = ci_productId c, oi_quantity = ci_quantity c,
                   oi_price = p_price p \<rparr>;
          s1 = s\<lparr> orderItems := orderItems s @ [item] \<rparr>
      in case update_first (\<lambda>q. p_id q = ci_productId c)
                (\<lambda>q. q\<lparr> p_stock := p_stock q - ci_quantity c \<rparr>) (products s1) of
           None \<Rightarrow> None
         | Some ps \<Rightarrow> place_items oid ls (s1\<lparr> products := ps \<rparr>))"

text \<open>
  The callback of \<^verbatim>\<open>prisma.$transaction\<close>: create the order, run the loop, clear the
  user's cart, return the order. When it throws, nothing is written.
\<close>

definition order_tx :: "'n runtime \<Rightarrow> req_user \<Rightarrow> (cart_item \<times> 'n product) list \<Rightarrow> 'n \<Rightarrow> 'n state
    \<Rightarrow> ('n order \<times> 'n state) option" where
  "order_tx rt u ls tot s =
     (let new = \<lparr> o_id = fresh_id (map o_id (orders s)), o_userId = ru_id u,
                  o_total = toDecimal rt tot, o_status = ''PENDING'' \<rparr>;
          s1 = s\<lparr> orders := orders s @ [new] \<rparr>
      in case place_items (o_id new) ls s1 of
           None \<Rightarrow> None
         | Some s2 \<Rightarrow>
             Some (new, s2\<lparr> cartItems := filter (\<lambda>c. ci_userId c \<noteq> ru_id u) (cartItems s2) \<rparr>))"

text \<open>\<^verbatim>\<open>order.findUnique({ where: { id }, include: { orderItems } })\<close> as a response body.\<close>

definition order_body :: "'n state \<Rightarrow> 'n order option \<Rightarrow> 'n body" where
  "order_body s r =
     (case r of
        None \<Rightarrow> NullBody
      | Some x \<Rightarrow> OrderBody x (filter (\<lambda>i. oi_orderId i = o_id x) (orderItems s)))"

definition post_orders :: "'n runtime \<Rightarrow> req_user \<Rightarrow> 'n state \<Rightarrow> 'n response \<times> 'n state" where
  "post_orders rt u s =
     (case cart_lines u s of
        None \<Rightarrow> (server_error, s)
      | Some ls \<Rightarrow>
          (if length ls = 0 then ((400, ErrorMsg ''Cart is empty''), s)
           else (case check_stock rt ls (num_zero rt) of
                   Inl nm \<Rightarrow> ((400, ErrorMsg (''Insufficient stock for '' @ nm)), s)
                 | Inr tot \<Rightarrow>
                     (case order_tx rt u ls tot s of
                        None \<Rightarrow> (server_error, s)
                      | Some (result, s') \<Rightarrow>
                          ((201, order_body s' (find (\<lambda>x. o_id x = o_id result) (orders s'))), s')))))"

section \<open>GET /api/orders/:id\<close>

definition get_order :: "req_user \<Rightarrow> ident \<Rightarrow> 'n state \<Rightarrow> 'n response" where
  "get_order u i s =
     (case find (\<lambda>x. o_id x = i \<and> o_userId x = ru_id u) (orders s) of
        None \<Rightarrow> (404, ErrorMsg ''Order not found'')
      | Some x \<Rightarrow> (200, order_body s (Some x)))"

section \<open>POST /api/users/become-seller\<close>

text \<open>
  The handler takes the new role from \<^verbatim>\<open>Prisma.Role.SELLER\<close>. The generated client is not
  in the sources; the \<^verbatim>\<open>Prisma\<close> namespace it exports holds no model enum (the enums are
  exported at the top level of the client and under \<^verbatim>\<open>$Enums\<close>). So \<^verbatim>\<open>Prisma.Role\<close> is
  \<^verbatim>\<open>undefined\<close>, and reading a member of it throws (\<open>None\<close>).
\<close>

definition Prisma_Role :: "string \<Rightarrow> role option" where
  "Prisma_Role member = None"

definition become_seller :: "req_user \<Rightarrow> 'n state \<Rightarrow> 'n response \<times> 'n state" where
  "become_seller u s =
     (if ru_role u = SELLER then ((400, ErrorMsg ''User is already a seller''), s)
      else case Prisma_Role ''SELLER'' of
             None \<Rightarrow> (server_error, s)
           | Some new_role \<Rightarrow>
               (case update_first (\<lambda>x. u_id x = ru_id u) (\<lambda>x. x\<lparr> u_role := new_role \<rparr>) (users s) of
                  None \<Rightarrow> (server_error, s)
                | Some us \<Rightarrow>
                    (case find (\<lambda>x. u_id x = ru_id u) us of
                       None \<Rightarrow> (server_error, s)
                     | Some updated \<Rightarrow> ((200, UserBody updated), s\<lparr> users := us \<rparr>))))"

section \<open>POST /api/products and PUT /api/products/:id\<close>

text \<open>The fields the two handlers read from \<^verbatim>\<open>req.body\<close>.\<close>

record 'n product_body =
  pb_name :: "string option"
  pb_description :: "string option"
  pb_price :: "'n option"
  pb_stock :: "int option"
  pb_imageUrl :: "string option"
  pb_categoryId :: "ident option"
  pb_isActive :: "bool option"
  pb_brand :: "string option"
  pb_gender :: "string option"
  pb_sellerId :: "ident option"

text \<open>\<^verbatim>\<open>notEmpty()\<close> on a string field, and the truthiness of a string (\<^verbatim>\<open>name && ...\<close>).\<close>

definition notEmpty :: "string option \<Rightarrow> bool" where
  "notEmpty v = (case v of None \<Rightarrow> False | Some x \<Rightarrow> x \<noteq> [])"

definition product_errors :: "'n runtime \<Rightarrow> 'n product_body \<Rightarrow> string list" where
  "product_errors rt b =
     (if notEmpty (pb_name b) then [] else [''Product name is required'']) @
     (if (case pb_price b of None \<Rightarrow> False | Some v \<Rightarrow> isDecimal rt v) then []
      else [''Price must be greater than 0'']) @
     (if notEmpty (pb_categoryId b) then [] else [''Category is required'']) @
     (if (case pb_stock b of None \<Rightarrow> False | Some n \<Rightarrow> 0 \<le> n) then []
      else [''Stock must be a non-negative integer''])"

text \<open>
  \<^verbatim>\<open>product.create\<close>; a column the data leave out is null, and \<^verbatim>\<open>isActive\<close> takes its
  default.
\<close>

definition post_products :: "'n runtime \<Rightarrow> req_user \<Rightarrow> 'n product_body \<Rightarrow> 'n state
    \<Rightarrow> 'n response \<times> 'n state" where
  "post_products rt u b s =
     (if ru_role u \<noteq> ADMIN \<and> ru_role u \<noteq> SELLER
      then ((403, ErrorMsg ''Access denied. Admin or Seller only.''), s)
      else if product_errors rt b \<noteq> [] then ((400, ValidationErrors (product_errors rt b)), s)
      else case (pb_name b, pb_price b, pb_stock b, pb_categoryId b) of
             (Some name, Some price, Some stock, Some categoryId) \<Rightarrow>
               (let new = \<lparr> p_id = fresh_id (map p_id (products s)),
                              p_name = name,
                              p_description = pb_description b,
                              p_price = toDecimal rt (parseFloat rt price),
                              p_stock = stock,
                              p_imageUrl = pb_imageUrl b,
                              p_categoryId = categoryId,
                              p_sellerId =
                                (if ru_role u = SELLER then Some (ru_id u)
                                 else if notEmpty (pb_sellerId b) then pb_sellerId b else None),
                              p_isActive = True,
                              p_brand = (if notEmpty (pb_brand b) then pb_brand b else None),
                              p_gender =
                                (if notEmpty (pb_gender b) then map_option (toUpperCase rt) (pb_gender b)
                                 else None) \<rparr>
                in ((201, ProductBody new), s\<lparr> products := products s @ [new] \<rparr>))
           | _ \<Rightarrow> (server_error, s))"

text \<open>The \<^verbatim>\<open>data\<close> object of the update, applied to the row it meets.\<close>

definition put_data :: "'n runtime \<Rightarrow> 'n product_body \<Rightarrow> 'n product \<Rightarrow> 'n product" where
  "put_data rt b p =
     p\<lparr> p_name := (case pb_name b of Some v \<Rightarrow> if v \<noteq> [] then v else p_name p | None \<Rightarrow> p_name p),
        p_description := (if notEmpty (pb_description b) then pb_description b else p_description p),
        p_price := (case pb_price b of
                      Some v \<Rightarrow> if truthy rt v then toDecimal rt (parseFloat rt v) else p_price p
                    | None \<Rightarrow> p_price p),
        p_stock := (case pb_stock b of Some n \<Rightarrow> n | None \<Rightarrow> p_stock p),
        p_imageUrl := (if notEmpty (pb_imageUrl b) then pb_imageUrl b else p_imageUrl p),
        p_categoryId := (case pb_categoryId b of
                           Some v \<Rightarrow> if v \<noteq> [] then v else p_categoryId p
                         | None \<Rightarrow> p_categoryId p),
        p_isActive := (case pb_isActive b of Some v \<Rightarrow> v | None \<Rightarrow> p_isActive p),
        p_gender := (if notEmpty (pb_gender b) then map_option (toUpperCase rt) (pb_gender b)
                     else p_gender p) \<rparr>"

definition put_products :: "'n runtime \<Rightarrow> req_user \<Rightarrow> ident \<Rightarrow> 'n product_body \<Rightarrow> 'n state
    \<Rightarrow> 'n response \<times> 'n state" where
  "put_products rt u i b s =
     (if ru_role u \<noteq> ADMIN then ((403, ErrorMsg ''Access denied. Admin only.''), s)
      else case update_first (\<lambda>p. p_id p = i) (put_data rt b) (products s) of
             None \<Rightarrow> (server_error, s)
           | Some ps \<Rightarrow>
               (case find_product ps i of
                  None \<Rightarrow> (server_error, s)
                | Some p \<Rightarrow> ((200, ProductBody p), s\<lparr> products := ps \<rparr>)))"

section \<open>POST /api/cart, PUT /api/cart/:id, DELETE /api/cart/:id\<close>

record cart_body =
  cb_productId :: "ident option"
  cb_quantity :: "int option"

definition quantity_errors :: "cart_body \<Rightarrow> string list" where
  "quantity_errors b =
     (if (case cb_quantity b of None \<Rightarrow> False | Some q \<Rightarrow> 1 \<le> q) then []
      else [''Quantity must be at least 1''])"

definition cart_errors :: "cart_body \<Rightarrow> string list" where
  "cart_errors b =
     (if notEmpty (cb_productId b) then [] else [''Product ID is required'']) @ quantity_errors b"

definition post_cart :: "req_user \<Rightarrow> cart_body \<Rightarrow> 'n state \<Rightarrow> 'n response \<times> 'n state" where
  "post_cart u b s =
     (if cart_errors b \<noteq> [] then ((400, ValidationErrors (cart_errors b)), s)
      else case (cb_productId b, cb_quantity b) of
             (Some productId, Some quantity) \<Rightarrow>
               (case find_product (products s) productId of
                  None \<Rightarrow> ((404, ErrorMsg ''Product not found''), s)
                | Some p \<Rightarrow>
                    if p_stock p < quantity then ((400, ErrorMsg ''Insufficient stock''), s)
                    else (case find (\<lambda>c. ci_userId c = ru_id u \<and> ci_productId c = productId) (cartItems s) of
                            Some existingCartItem \<Rightarrow>
                              (case update_first (\<lambda>c. ci_id c = ci_id existingCartItem)
                                      (\<lambda>c. c\<lparr> ci_quantity := ci_quantity existingCartItem + quantity \<rparr>)
                                      (cartItems s) of
                                 None \<Rightarrow> (server_error, s)
                               | Some cs \<Rightarrow>
                                   (case find (\<lambda>c. ci_id c = ci_id existingCartItem) cs of
                                      None \<Rightarrow> (server_error, s)
                                    | Some cartItem \<Rightarrow> ((201, CartItemBody cartItem), s\<lparr> cartItems := cs \<rparr>)))
                          | None \<Rightarrow>
                              (let cartItem = \<lparr> ci_id = fresh_id (map ci_id (cartItems s)),
                                                ci_userId = ru_id u, ci_productId = productId,
                                                ci_quantity = quantity \<rparr>
                               in ((201, CartItemBody cartItem), s\<lparr> cartItems := cartItems s @ [cartItem] \<rparr>))))
           | _ \<Rightarrow> (server_error, s))"

definition put_cart :: "req_user \<Rightarrow> ident \<Rightarrow> cart_body \<Rightarrow> 'n state \<Rightarrow> 'n response \<times> 'n state" where
  "put_cart u i b s =
     (if quantity_errors b \<noteq> [] then ((400, ValidationErrors (quantity_errors b)), s)
      else case cb_quantity b of
             None \<Rightarrow> (server_error, s)
           | Some quantity \<Rightarrow>
               (case update_first (\<lambda>c. ci_id c = i \<and> ci_userId c = ru_id u)
                       (\<lambda>c. c\<lparr> ci_quantity := quantity \<rparr>) (cartItems s) of
                  None \<Rightarrow> (server_error, s)
                | Some cs \<Rightarrow>
                    (case find (\<lambda>c. ci_id c = i \<and> ci_userId c = ru_id u) cs of
                       None \<Rightarrow> (server_error, s)
                     | Some cartItem \<Rightarrow> ((200, CartItemBody cartItem), s\<lparr> cartItems := cs \<rparr>))))"

definition delete_cart :: "req_user \<Rightarrow> ident \<Rightarrow> 'n state \<Rightarrow> 'n response \<times> 'n state" where
  "delete_cart u i s =
     (case delete_first (\<lambda>c. ci_id c = i \<and> ci_userId c = ru_id u) (cartItems s) of
        None \<Rightarrow> (server_error, s)
      | Some cs \<Rightarrow> ((200, Message ''Item removed from cart''), s\<lparr> cartItems := cs \<rparr>))"

section \<open>Sequential executions\<close>

text \<open>
  The requests that write to the tables above, and \<^verbatim>\<open>GET /api/orders/:id\<close>. (The
  wishlist and category handlers write to their own tables only; the listing handlers
  write nothing.)
\<close>

datatype 'n request =
    PostOrders req_user
  | GetOrder req_user ident
  | BecomeSeller req_user
  | PostProducts req_user "'n product_body"
  | PutProducts req_user ident "'n product_body"
  | PostCart req_user cart_body
  | PutCart req_user ident cart_body
  | DeleteCart req_user ident

fun exec :: "'n runtime \<Rightarrow> 'n request \<Rightarrow> 'n state \<Rightarrow> 'n response \<times> 'n state" where
  "exec rt (PostOrders u) s = post_orders rt u s"
| "exec rt (GetOrder u i) s = (get_order u i s, s)"
| "exec rt (BecomeSeller u) s = become_seller u s"
| "exec rt (PostProducts u b) s = post_products rt u b s"
| "exec rt (PutProducts u i b) s = put_products rt u i b s"
| "exec rt (PostCart u b) s = post_cart u b s"
| "exec rt (PutCart u i b) s = put_cart u i b s"
| "exec rt (DeleteCart u i) s = delete_cart u i s"

fun run :: "'n runtime \<Rightarrow> 'n request list \<Rightarrow> 'n state \<Rightarrow> 'n state" where
  "run rt [] s = s"
| "run rt (r # rs) s = run rt rs (snd (exec rt r s))"

section \<open>Constraints of the schema\<close>

text \<open>
  Modelled from the spec: the constraints of the relational schema, which is not in the
  sources. The first is the unique key \<^verbatim>\<open>userId_productId\<close> of the cart table, by which
  the cart handlers query.
\<close>

definition cart_unique :: "'n state \<Rightarrow> bool" where
  "cart_unique s = distinct (map (\<lambda>c. (ci_userId c, ci_productId c)) (cartItems s))"

text \<open>Modelled from the spec: the foreign key of an order item to its order.\<close>

definition order_fk :: "'n state \<Rightarrow> bool" where
  "order_fk s = list_all (\<lambda>i. oi_orderId i \<in> set (map o_id (orders s))) (orderItems s)"

text \<open>No product has a negative stock.\<close>

definition stock_nonneg :: "'n state \<Rightarrow> bool" where
  "stock_nonneg s = list_all (\<lambda>p. 0 \<le> p_stock p) (products s)"

section \<open>Notions used in the statements\<close>

text \<open>
  The sum of price times quantity over the cart lines, as the handler accumulates it: from
  \<^verbatim>\<open>0\<close>, in the order of the lines, with the runtime's own addition and multiplication.
\<close>

definition cart_total :: "'n runtime \<Rightarrow> (cart_item \<times> 'n product) list \<Rightarrow> 'n" where
  "cart_total rt ls =
     foldl (\<lambda>t (c, p). num_add rt t (num_mul rt (parseFloat rt (p_price p)) (ci_quantity c)))
       (num_zero rt) ls"

text \<open>The quantity the cart lines \<open>ls\<close> ask of the product \<open>j\<close>.\<close>

definition ordered_qty :: "(cart_item \<times> 'n product) list \<Rightarrow> ident \<Rightarrow> int" where
  "ordered_qty ls j = sum_list (map (\<lambda>(c, p). ci_quantity c) (filter (\<lambda>(c, p). ci_productId c = j) ls))"

text \<open>
  A product update that an administrator is allowed to make and that sets the stock to a
  negative number.
\<close>

fun negative_restock :: "'n request \<Rightarrow> bool" where
  "negative_restock (PutProducts u i b) =
     (ru_role u = ADMIN \<and> (case pb_stock b of Some n \<Rightarrow> n < 0 | None \<Rightarrow> False))"
| "negative_restock _ = False"

section \<open>Example data\<close>

text \<open>
  An instance of the runtime in which a number is an integer count of cents, and a small
  shop: one product of price 1000 and stock 5, and a cart of one line of quantity 2.
\<close>

definition upper_char :: "char \<Rightarrow> char" where
  "upper_char c =
     (let n = (of_char c :: nat) in if 97 \<le> n \<and> n \<le> 122 then char_of (n - 32) else c)"

definition cents :: "int runtime" where
  "cents = \<lparr> parseFloat = (\<lambda>x. x), num_add = (\<lambda>x y. x + y), num_mul = (\<lambda>x k. x * k),
             num_zero = 0, toDecimal = (\<lambda>x. x), isDecimal = (\<lambda>x. True),
             truthy = (\<lambda>x. x \<noteq> 0), toUpperCase = map upper_char \<rparr>"

definition alice :: req_user where
  "alice = \<lparr> ru_id = ''u1'', ru_role = USER \<rparr>"

definition bob :: req_user where
  "bob = \<lparr> ru_id = ''u2'', ru_role = USER \<rparr>"

definition root :: req_user where
  "root = \<lparr> ru_id = ''u0'', ru_role = ADMIN \<rparr>"

definition root_row :: user where
  "root_row = \<lparr> u_id = ''u0'', u_email = ''root@shop'', u_name = ''Root'', u_role = ADMIN \<rparr>"

definition productA :: "int product" where
  "productA = \<lparr> p_id = ''pA'', p_name = ''A'', p_description = None, p_price = 1000, p_stock = 5,
                p_imageUrl = None, p_categoryId = ''c1'', p_sellerId = None, p_isActive = True,
                p_brand = None, p_gender = None \<rparr>"

definition lineA :: cart_item where
  "lineA = \<lparr> ci_id = ''l1'', ci_userId = ''u1'', ci_productId = ''pA'', ci_quantity = 2 \<rparr>"

definition shop :: "int state" where
  "shop = \<lparr> users = [root_row,
                      \<lparr> u_id = ''u1'', u_email = ''alice@shop'', u_name = ''Alice'', u_role = USER \<rparr>,
                      \<lparr> u_id = ''u2'', u_email = ''bob@shop'', u_name = ''Bob'', u_role = USER \<rparr>],
            products = [productA], cartItems = [lineA], orders = [], orderItems = [] \<rparr>"

definition shop_short :: "int state" where
  "shop_short = shop\<lparr> cartItems := [lineA\<lparr> ci_quantity := 7 \<rparr>] \<rparr>"

definition shop_ordered :: "int state" where
  "shop_ordered = shop\<lparr> orders := [\<lparr> o_id = ''o1'', o_userId = ''u2'', o_total = 3000, o_status = ''PENDING'' \<rparr>],
                        orderItems := [\<lparr> oi_id = ''i1'', oi_orderId = ''o1'', oi_productId = ''pA'',
                                         oi_quantity = 3, oi_price = 1000 \<rparr>] \<rparr>"

definition no_fields :: "int product_body" where
  "no_fields = \<lparr> pb_name = None, pb_description = None, pb_price = None, pb_stock = None,
                 pb_imageUrl = None, pb_categoryId = None, pb_isActive = None, pb_brand = None,
                 pb_gender = None, pb_sellerId = None \<rparr>"

lemmas example_defs = cents_def alice_def bob_def root_def root_row_def productA_def lineA_def
  shop_def shop_short_def shop_ordered_def no_fields_def

section \<open>The database client: lemmas\<close>

lemma length_le_foldr_max: "x \<in> set ids \<Longrightarrow> length x \<le> foldr max (map length ids) 0"
  by (induction ids) auto

lemma fresh_id_notin: "fresh_id ids \<notin> set ids"
proof
  assume "fresh_id ids \<in> set ids"
  then have "length (fresh_id ids) \<le> foldr max (map length ids) 0"
    by (rule length_le_foldr_max)
  then show False by (simp add: fresh_id_def)
qed

lemma update_first_None_iff: "update_first P f xs = None \<longleftrightarrow> find P xs = None"
  by (induction xs) auto

lemma update_first_find:
  assumes "update_first (\<lambda>x. k x = i) f xs = Some ys" and "\<And>x. k (f x) = k x"
  shows "find (\<lambda>x. k x = j) ys =
           (if j = i then map_option f (find (\<lambda>x. k x = i) xs) else find (\<lambda>x. k x = j) xs)"
  using assms(1)
proof (induction xs arbitrary: ys)
  case Nil
  then show ?case by simp
next
  case (Cons x xs)
  then show ?case using assms(2) by (auto split: if_splits)
qed

lemma update_first_list_all:
  assumes "update_first P f xs = Some ys" and "list_all Q xs"
    and "\<And>x. find P xs = Some x \<Longrightarrow> Q (f x)"
  shows "list_all Q ys"
  using assms
proof (induction xs arbitrary: ys)
  case Nil
  then show ?case by simp
next
  case (Cons x xs)
  then show ?case by (auto split: if_splits)
qed

lemma update_first_map_key:
  assumes "update_first P f xs = Some ys" and "\<And>x. k (f x) = k x"
  shows "map k ys = map k xs"
  using assms(1)
proof (induction xs arbitrary: ys)
  case Nil
  then show ?case by simp
next
  case (Cons x xs)
  then show ?case using assms(2) by (auto split: if_splits)
qed

lemma with_products_fst: "with_products ps cs = Some ls \<Longrightarrow> map fst ls = cs"
  by (induction cs arbitrary: ls) (auto split: option.splits)

lemma with_products_find:
  "with_products ps cs = Some ls \<Longrightarrow> (c, p) \<in> set ls \<Longrightarrow> find_product ps (ci_productId c) = Some p"
  by (induction cs arbitrary: ls) (auto split: option.splits)

section \<open>Order placement: lemmas\<close>

lemma check_stock_Inr:
  "(\<forall>(c, p) \<in> set ls. ci_quantity c \<le> p_stock p) \<Longrightarrow>
   check_stock rt ls t =
     Inr (foldl (\<lambda>t (c, p). num_add rt t (num_mul rt (parseFloat rt (p_price p)) (ci_quantity c))) t ls)"
  by (induction ls arbitrary: t) auto

lemma check_stock_Inl:
  "(c0, p0) \<in> set ls \<Longrightarrow> p_stock p0 < ci_quantity c0 \<Longrightarrow>
   \<exists>c p. (c, p) \<in> set ls \<and> p_stock p < ci_quantity c \<and> check_stock rt ls t = Inl (p_name p)"
proof (induction ls arbitrary: t)
  case Nil
  then show ?case by simp
next
  case (Cons l ls)
  obtain c p where l: "l = (c, p)" by (cases l)
  show ?case
  proof (cases "p_stock p < ci_quantity c")
    case True
    then show ?thesis using l by auto
  next
    case False
    with Cons.prems l have "(c0, p0) \<in> set ls" by auto
    from Cons.IH [OF this Cons.prems(2)] obtain c' p' where
      "(c', p') \<in> set ls" "p_stock p' < ci_quantity c'"
      "check_stock rt ls (num_add rt t (num_mul rt (parseFloat rt (p_price p)) (ci_quantity c))) = Inl (p_name p')"
      by blast
    then show ?thesis using l False by auto
  qed
qed

lemma check_stock_Inr_D:
  "check_stock rt ls t = Inr tot \<Longrightarrow> (c, p) \<in> set ls \<Longrightarrow> ci_quantity c \<le> p_stock p"
  by (induction ls arbitrary: t) (auto split: if_splits)

lemma place_items_frame:
  "place_items oid ls s = Some s' \<Longrightarrow>
   users s' = users s \<and> cartItems s' = cartItems s \<and> orders s' = orders s"
  by (induction ls arbitrary: s) (auto simp: Let_def split: option.splits)

lemma place_items_orderItems:
  "place_items oid ls s = Some s' \<Longrightarrow>
   \<exists>new. orderItems s' = orderItems s @ new \<and>
     map (\<lambda>i. (oi_orderId i, oi_productId i, oi_quantity i, oi_price i)) new =
     map (\<lambda>(c, p). (oid, ci_productId c, ci_quantity c, p_price p)) ls"
proof (induction ls arbitrary: s)
  case Nil
  then show ?case by simp
next
  case (Cons l ls)
  obtain c p where l: "l = (c, p)" by (cases l)
  let ?item = "\<lparr> oi_id = fresh_id (map oi_id (orderItems s)), oi_orderId = oid,
                   oi_productId = ci_productId c, oi_quantity = ci_quantity c,
                   oi_price = p_price p \<rparr>"
  from Cons.prems l obtain ps where
    rest: "place_items oid ls (s\<lparr> orderItems := orderItems s @ [?item], products := ps \<rparr>) = Some s'"
    by (auto simp: Let_def split: option.splits)
  from Cons.IH [OF rest] obtain new where
    new: "orderItems s' = (orderItems s @ [?item]) @ new"
      "map (\<lambda>i. (oi_orderId i, oi_productId i, oi_quantity i, oi_price i)) new =
       map (\<lambda>(c, p). (oid, ci_productId c, ci_quantity c, p_price p)) ls"
    by auto
  show ?case
  proof (intro exI conjI)
    show "orderItems s' = orderItems s @ (?item # new)" using new(1) by simp
    show "map (\<lambda>i. (oi_orderId i, oi_productId i, oi_quantity i, oi_price i)) (?item # new) =
          map (\<lambda>(c, p). (oid, ci_productId c, ci_quantity c, p_price p)) (l # ls)"
      using new(2) l by simp
  qed
qed

lemma place_items_products:
  "place_items oid ls s = Some s' \<Longrightarrow>
   find_product (products s') j =
     map_option (\<lambda>q. q\<lparr> p_stock := p_stock q - ordered_qty ls j \<rparr>) (find_product (products s) j)"
proof (induction ls arbitrary: s)
  case Nil
  then show ?case by (simp add: ordered_qty_def option.map_ident)
next
  case (Cons l ls)
  obtain c p where l: "l = (c, p)" by (cases l)
  let ?item = "\<lparr> oi_id = fresh_id (map oi_id (orderItems s)), oi_orderId = oid,
                   oi_productId = ci_productId c, oi_quantity = ci_quantity c,
                   oi_price = p_price p \<rparr>"
  from Cons.prems l obtain ps where
    upd: "update_first (\<lambda>q. p_id q = ci_productId c)
            (\<lambda>q. q\<lparr> p_stock := p_stock q - ci_quantity c \<rparr>) (products s) = Some ps"
    and rest: "place_items oid ls (s\<lparr> orderItems := orderItems s @ [?item], products := ps \<rparr>) = Some s'"
    by (auto simp: Let_def split: option.splits)
  have step: "find_product ps k =
      (if k = ci_productId c
       then map_option (\<lambda>q. q\<lparr> p_stock := p_stock q - ci_quantity c \<rparr>) (find_product (products s) k)
       else find_product (products s) k)" for k
    unfolding find_product_def using update_first_find [OF upd, of k] by simp
  have ih: "find_product (products s') j =
     map_option (\<lambda>q. q\<lparr> p_stock := p_stock q - ordered_qty ls j \<rparr>) (find_product ps j)"
    using Cons.IH [OF rest] by simp
  show ?case
  proof (cases "j = ci_productId c")
    case True
    have "ordered_qty (l # ls) j = ci_quantity c + ordered_qty ls j"
      using True l by (simp add: ordered_qty_def)
    then show ?thesis
      unfolding ih step [of j] using True
      by (cases "find_product (products s) j") (simp_all add: algebra_simps)
  next
    case False
    have "ordered_qty (l # ls) j = ordered_qty ls j"
      using False l by (auto simp: ordered_qty_def)
    then show ?thesis
      unfolding ih step [of j] using False by simp
  qed
qed

lemma place_items_succeeds:
  "(\<forall>(c, p) \<in> set ls. find_product (products s) (ci_productId c) \<noteq> None) \<Longrightarrow>
   \<exists>s'. place_items oid ls s = Some s'"
proof (induction ls arbitrary: s)
  case Nil
  then show ?case by simp
next
  case (Cons l ls)
  obtain c p where l: "l = (c, p)" by (cases l)
  let ?item = "\<lparr> oi_id = fresh_id (map oi_id (orderItems s)), oi_orderId = oid,
                   oi_productId = ci_productId c, oi_quantity = ci_quantity c,
                   oi_price = p_price p \<rparr>"
  let ?f = "\<lambda>q::'a product. q\<lparr> p_stock := p_stock q - ci_quantity c \<rparr>"
  from Cons.prems l have "find (\<lambda>q. p_id q = ci_productId c) (products s) \<noteq> None"
    by (simp add: find_product_def)
  then obtain ps where upd: "update_first (\<lambda>q. p_id q = ci_productId c) ?f (products s) = Some ps"
    using update_first_None_iff [of "\<lambda>q. p_id q = ci_productId c" ?f "products s"] by auto
  have "find_product ps (ci_productId c') \<noteq> None" if in_ls: "(c', p') \<in> set ls" for c' p'
  proof -
    from in_ls Cons.prems have "find_product (products s) (ci_productId c') \<noteq> None" by auto
    moreover have "find_product ps (ci_productId c') =
      (if ci_productId c' = ci_productId c
       then map_option ?f (find_product (products s) (ci_productId c'))
       else find_product (products s) (ci_productId c'))"
      unfolding find_product_def using update_first_find [OF upd, of "ci_productId c'"] by simp
    ultimately show ?thesis by (auto split: if_splits)
  qed
  then have "\<forall>(c', p') \<in> set ls.
          find_product (products (s\<lparr> orderItems := orderItems s @ [?item], products := ps \<rparr>)) (ci_productId c') \<noteq> None"
    by auto
  from Cons.IH [OF this] obtain s' where
    "place_items oid ls (s\<lparr> orderItems := orderItems s @ [?item], products := ps \<rparr>) = Some s'" ..
  then show ?case using upd l by (simp add: Let_def)
qed

lemma cart_unique_lines:
  assumes "distinct (map (\<lambda>c. (ci_userId c, ci_productId c)) cs)"
  shows "distinct (map ci_productId (filter (\<lambda>c. ci_userId c = u) cs))"
proof -
  let ?xs = "filter (\<lambda>c. ci_userId c = u) cs"
  from assms have "distinct (map (\<lambda>c. (ci_userId c, ci_productId c)) ?xs)"
    by (rule distinct_map_filter)
  then have d: "distinct ?xs" and inj: "inj_on (\<lambda>c. (ci_userId c, ci_productId c)) (set ?xs)"
    by (simp_all add: distinct_map)
  have "inj_on ci_productId (set ?xs)"
  proof (rule inj_onI)
    fix a b assume "a \<in> set ?xs" "b \<in> set ?xs" "ci_productId a = ci_productId b"
    then show "a = b" using inj by (auto dest!: inj_onD)
  qed
  with d show ?thesis by (simp add: distinct_map)
qed

lemma ordered_qty_notin:
  "j \<notin> ci_productId ` fst ` set ls \<Longrightarrow> ordered_qty ls j = 0"
proof -
  assume "j \<notin> ci_productId ` fst ` set ls"
  then have "filter (\<lambda>(c, p). ci_productId c = j) ls = []"
    by (auto simp: filter_empty_conv image_iff)
  then show ?thesis by (simp add: ordered_qty_def)
qed

lemma ordered_qty_distinct:
  "distinct (map ci_productId (map fst ls)) \<Longrightarrow> (c, p) \<in> set ls \<Longrightarrow>
   ordered_qty ls (ci_productId c) = ci_quantity c"
proof (induction ls)
  case Nil
  then show ?case by simp
next
  case (Cons l ls)
  obtain c' p' where l: "l = (c', p')" by (cases l)
  show ?case
  proof (cases "(c, p) = l")
    case True
    with Cons.prems l have "ci_productId c \<notin> ci_productId ` fst ` set ls" by auto
    then have "ordered_qty ls (ci_productId c) = 0" by (rule ordered_qty_notin)
    then show ?thesis using True l by (simp add: ordered_qty_def)
  next
    case False
    with Cons.prems have in_ls: "(c, p) \<in> set ls" by simp
    with Cons.prems l have "ci_productId c' \<noteq> ci_productId c" by force
    moreover from Cons.IH in_ls Cons.prems have "ordered_qty ls (ci_productId c) = ci_quantity c" by simp
    ultimately show ?thesis using l by (simp add: ordered_qty_def)
  qed
qed

lemma find_snoc_fresh:
  "\<forall>x \<in> set xs. \<not> P x \<Longrightarrow> P y \<Longrightarrow> find P (xs @ [y]) = Some y"
  by (induction xs) auto

lemma order_tx_result:
  assumes "place_items (fresh_id (map o_id (orders s))) ls (s\<lparr> orders := orders s @ [new] \<rparr>) = Some s2"
    and "new = \<lparr> o_id = fresh_id (map o_id (orders s)), o_userId = ru_id u,
                  o_total = toDecimal rt tot, o_status = ''PENDING'' \<rparr>"
  shows "order_tx rt u ls tot s =
           Some (new, s2\<lparr> cartItems := filter (\<lambda>c. ci_userId c \<noteq> ru_id u) (cartItems s2) \<rparr>)"
  using assms by (simp add: order_tx_def Let_def)

lemma order_tx_None:
  "order_tx rt u ls tot s = None \<longleftrightarrow>
   place_items (fresh_id (map o_id (orders s))) ls
     (s\<lparr> orders := orders s @ [\<lparr> o_id = fresh_id (map o_id (orders s)), o_userId = ru_id u,
                  o_total = toDecimal rt tot, o_status = ''PENDING'' \<rparr>] \<rparr>) = None"
  by (simp add: order_tx_def Let_def split: option.splits)

lemma post_orders_placed:
  assumes lines: "cart_lines u s = Some ls" and ne: "ls \<noteq> []"
    and enough: "\<forall>(c, p) \<in> set ls. ci_quantity c \<le> p_stock p"
  shows "\<exists>s2. place_items (fresh_id (map o_id (orders s))) ls
            (s\<lparr> orders := orders s @ [\<lparr> o_id = fresh_id (map o_id (orders s)), o_userId = ru_id u,
                  o_total = toDecimal rt (cart_total rt ls), o_status = ''PENDING'' \<rparr>] \<rparr>) = Some s2 \<and>
          post_orders rt u s =
            ((201, OrderBody \<lparr> o_id = fresh_id (map o_id (orders s)), o_userId = ru_id u,
                      o_total = toDecimal rt (cart_total rt ls), o_status = ''PENDING'' \<rparr>
                    (filter (\<lambda>i. oi_orderId i = fresh_id (map o_id (orders s))) (orderItems s2))),
             s2\<lparr> cartItems := filter (\<lambda>c. ci_userId c \<noteq> ru_id u) (cartItems s2) \<rparr>)"
proof -
  let ?oid = "fresh_id (map o_id (orders s))"
  let ?new = "\<lparr> o_id = ?oid, o_userId = ru_id u,
                  o_total = toDecimal rt (cart_total rt ls), o_status = ''PENDING'' \<rparr>"
  let ?s1 = "s\<lparr> orders := orders s @ [?new] \<rparr>"
  have found: "\<forall>(c, p) \<in> set ls. find_product (products ?s1) (ci_productId c) \<noteq> None"
    using with_products_find [OF lines [unfolded cart_lines_def]] by auto
  from place_items_succeeds [OF found] obtain s2 where
    s2: "place_items ?oid ls ?s1 = Some s2" by blast
  have chk: "check_stock rt ls (num_zero rt) = Inr (cart_total rt ls)"
    using check_stock_Inr [OF enough] by (simp add: cart_total_def)
  have tx: "order_tx rt u ls (cart_total rt ls) s =
      Some (?new, s2\<lparr> cartItems := filter (\<lambda>c. ci_userId c \<noteq> ru_id u) (cartItems s2) \<rparr>)"
    using s2 by (rule order_tx_result) simp
  have ords: "orders s2 = orders s @ [?new]"
    using place_items_frame [OF s2] by simp
  have "\<forall>x \<in> set (orders s). \<not> o_id x = ?oid"
    using fresh_id_notin [of "map o_id (orders s)"] by (metis imageI set_map)
  then have fnd: "find (\<lambda>x. o_id x = ?oid) (orders s @ [?new]) = Some ?new"
    by (rule find_snoc_fresh) simp
  have "post_orders rt u s =
            ((201, OrderBody ?new (filter (\<lambda>i. oi_orderId i = ?oid) (orderItems s2))),
             s2\<lparr> cartItems := filter (\<lambda>c. ci_userId c \<noteq> ru_id u) (cartItems s2) \<rparr>)"
    using ne by (simp add: post_orders_def lines chk tx ords fnd order_body_def)
  with s2 show ?thesis by blast
qed

lemma delete_first_distinct:
  "delete_first P xs = Some ys \<Longrightarrow> distinct (map k xs) \<Longrightarrow> distinct (map k ys)"
proof (induction xs arbitrary: ys)
  case Nil
  then show ?case by simp
next
  case (Cons x xs)
  show ?case
  proof (cases "P x")
    case True
    with Cons.prems show ?thesis by simp
  next
    case False
    with Cons.prems obtain zs where zs: "delete_first P xs = Some zs" and ys: "ys = x # zs"
      by auto
    have sub: "set zs \<subseteq> set xs"
      using zs
    proof (induction xs arbitrary: zs)
      case Nil
      then show ?case by simp
    next
      case (Cons a as)
      then show ?case by (auto split: if_splits)
    qed
    from Cons.IH [OF zs] Cons.prems(2) have "distinct (map k zs)" by simp
    moreover from Cons.prems(2) sub have "k x \<notin> k ` set zs" by auto
    ultimately show ?thesis using ys by simp
  qed
qed

lemma place_items_nonneg:
  assumes "distinct (map ci_productId (map fst ls))"
    and "\<forall>(c, p) \<in> set ls. \<exists>q. find_product (products s) (ci_productId c) = Some q \<and> ci_quantity c \<le> p_stock q"
    and "stock_nonneg s"
    and "place_items oid ls s = Some s'"
  shows "stock_nonneg s'"
  using assms
proof (induction ls arbitrary: s)
  case Nil
  then show ?case by simp
next
  case (Cons l ls)
  obtain c p where l: "l = (c, p)" by (cases l)
  let ?item = "\<lparr> oi_id = fresh_id (map oi_id (orderItems s)), oi_orderId = oid,
                   oi_productId = ci_productId c, oi_quantity = ci_quantity c,
                   oi_price = p_price p \<rparr>"
  let ?f = "\<lambda>q::'a product. q\<lparr> p_stock := p_stock q - ci_quantity c \<rparr>"
  let ?s1 = "\<lambda>ps. s\<lparr> orderItems := orderItems s @ [?item], products := ps \<rparr>"
  from Cons.prems(4) l obtain ps where
    upd: "update_first (\<lambda>q. p_id q = ci_productId c) ?f (products s) = Some ps"
    and rest: "place_items oid ls (?s1 ps) = Some s'"
    by (auto simp: Let_def split: option.splits)
  from Cons.prems(2) l obtain q where
    q: "find_product (products s) (ci_productId c) = Some q" "ci_quantity c \<le> p_stock q"
    by auto
  have step: "find_product ps k =
      (if k = ci_productId c then map_option ?f (find_product (products s) k)
       else find_product (products s) k)" for k
    unfolding find_product_def using update_first_find [OF upd, of k] by simp
  have a1: "distinct (map ci_productId (map fst ls))" using Cons.prems(1) by simp
  have a2: "\<forall>(c', p') \<in> set ls. \<exists>q. find_product (products (?s1 ps)) (ci_productId c') = Some q \<and> ci_quantity c' \<le> p_stock q"
  proof (clarify)
    fix c' p' assume in_ls: "(c', p') \<in> set ls"
    with Cons.prems(1) l have "ci_productId c' \<noteq> ci_productId c" by force
    then have "find_product ps (ci_productId c') = find_product (products s) (ci_productId c')"
      by (simp add: step)
    with Cons.prems(2) in_ls
    show "\<exists>q. find_product (products (?s1 ps)) (ci_productId c') = Some q \<and> ci_quantity c' \<le> p_stock q"
      by auto
  qed
  have "list_all (\<lambda>p. 0 \<le> p_stock p) ps"
  proof (rule update_first_list_all [OF upd])
    show "list_all (\<lambda>p. 0 \<le> p_stock p) (products s)"
      using Cons.prems(3) by (simp add: stock_nonneg_def)
  next
    fix x assume "find (\<lambda>q. p_id q = ci_productId c) (products s) = Some x"
    with q have "x = q" by (simp add: find_product_def)
    with q(2) show "0 \<le> p_stock (?f x)" by simp
  qed
  then have a3: "stock_nonneg (?s1 ps)" by (simp add: stock_nonneg_def)
  from Cons.IH [OF a1 a2 a3 rest] show ?case .
qed

lemma order_tx_nonneg:
  assumes uniq: "cart_unique s" and nn: "stock_nonneg s"
    and lines: "cart_lines u s = Some ls"
    and chk: "check_stock rt ls t = Inr tot"
    and tx: "order_tx rt u ls tot s = Some (res, s')"
  shows "stock_nonneg s' \<and> cart_unique s'"
proof -
  let ?oid = "fresh_id (map o_id (orders s))"
  let ?new = "\<lparr> o_id = ?oid, o_userId = ru_id u, o_total = toDecimal rt tot, o_status = ''PENDING'' \<rparr>"
  let ?s1 = "s\<lparr> orders := orders s @ [?new] \<rparr>"
  from tx obtain s2 where s2: "place_items ?oid ls ?s1 = Some s2"
    and s': "s' = s2\<lparr> cartItems := filter (\<lambda>c. ci_userId c \<noteq> ru_id u) (cartItems s2) \<rparr>"
    by (auto simp: order_tx_def Let_def split: option.splits)
  have dist: "distinct (map ci_productId (map fst ls))"
    using cart_unique_lines [OF uniq [unfolded cart_unique_def], of "ru_id u"]
      with_products_fst [OF lines [unfolded cart_lines_def]] by simp
  have pre: "\<forall>(c, p) \<in> set ls. \<exists>q. find_product (products ?s1) (ci_productId c) = Some q \<and> ci_quantity c \<le> p_stock q"
  proof (clarify)
    fix c p assume in_ls: "(c, p) \<in> set ls"
    have "find_product (products s) (ci_productId c) = Some p"
      using with_products_find [OF lines [unfolded cart_lines_def] in_ls] .
    moreover have "ci_quantity c \<le> p_stock p" using check_stock_Inr_D [OF chk in_ls] .
    ultimately show "\<exists>q. find_product (products ?s1) (ci_productId c) = Some q \<and> ci_quantity c \<le> p_stock q"
      by simp
  qed
  have "stock_nonneg ?s1" using nn by (simp add: stock_nonneg_def)
  from place_items_nonneg [OF dist pre this s2] have "stock_nonneg s2" .
  then have "stock_nonneg s'" using s' by (simp add: stock_nonneg_def)
  moreover have "cartItems s2 = cartItems s" using place_items_frame [OF s2] by simp
  then have "cart_unique s'" using uniq s' by (simp add: cart_unique_def distinct_map_filter)
  ultimately show ?thesis by simp
qed

lemma post_orders_inv:
  assumes "cart_unique s" and "stock_nonneg s"
  shows "stock_nonneg (snd (post_orders rt u s)) \<and> cart_unique (snd (post_orders rt u s))"
proof (cases "cart_lines u s")
  case None
  with assms show ?thesis by (simp add: post_orders_def)
next
  case (Some ls)
  show ?thesis
  proof (cases "check_stock rt ls (num_zero rt)")
    case (Inl nm)
    with Some assms show ?thesis by (simp add: post_orders_def)
  next
    case (Inr tot)
    show ?thesis
    proof (cases "order_tx rt u ls tot s")
      case None
      with Some Inr assms show ?thesis by (simp add: post_orders_def)
    next
      case tx: (Some r)
      obtain res s' where r: "r = (res, s')" by (cases r)
      from order_tx_nonneg [OF assms Some Inr tx [unfolded r]] have "stock_nonneg s' \<and> cart_unique s'" .
      with Some Inr tx r assms show ?thesis by (simp add: post_orders_def)
    qed
  qed
qed

section \<open>The other handlers: lemmas\<close>

lemma become_seller_frame:
  "products (snd (become_seller u s)) = products s \<and>
   cartItems (snd (become_seller u s)) = cartItems s \<and>
   orders (snd (become_seller u s)) = orders s \<and>
   orderItems (snd (become_seller u s)) = orderItems s"
  by (simp add: become_seller_def split: option.splits)

lemma post_products_inv:
  assumes "stock_nonneg s"
  shows "stock_nonneg (snd (post_products rt u b s)) \<and>
         cartItems (snd (post_products rt u b s)) = cartItems s"
proof (cases "product_errors rt b = []")
  case True
  then have "case pb_stock b of None \<Rightarrow> False | Some n \<Rightarrow> 0 \<le> n"
    by (auto simp: product_errors_def split: if_splits)
  then show ?thesis using assms
    by (auto simp: post_products_def stock_nonneg_def Let_def split: option.splits)
next
  case False
  then show ?thesis using assms by (simp add: post_products_def)
qed

lemma put_products_frame:
  "users (snd (put_products rt u i b s)) = users s \<and>
   cartItems (snd (put_products rt u i b s)) = cartItems s \<and>
   orders (snd (put_products rt u i b s)) = orders s \<and>
   orderItems (snd (put_products rt u i b s)) = orderItems s"
  by (simp add: put_products_def split: option.splits)

lemma put_products_nonneg:
  assumes nn: "stock_nonneg s" and ok: "\<not> negative_restock (PutProducts u i b)"
  shows "stock_nonneg (snd (put_products rt u i b s))"
proof (cases "ru_role u = ADMIN")
  case False
  then show ?thesis using nn by (simp add: put_products_def)
next
  case True
  show ?thesis
  proof (cases "update_first (\<lambda>p. p_id p = i) (put_data rt b) (products s)")
    case None
    then show ?thesis using nn by (simp add: put_products_def)
  next
    case (Some ps)
    have "list_all (\<lambda>p. 0 \<le> p_stock p) ps"
    proof (rule update_first_list_all [OF Some])
      show "list_all (\<lambda>p. 0 \<le> p_stock p) (products s)" using nn by (simp add: stock_nonneg_def)
    next
      fix x assume "find (\<lambda>p. p_id p = i) (products s) = Some x"
      then have "x \<in> set (products s)" by (auto simp: find_Some_iff)
      then have "0 \<le> p_stock x" using nn by (simp add: stock_nonneg_def list_all_iff)
      then show "0 \<le> p_stock (put_data rt b x)"
        using ok True by (simp add: put_data_def split: option.splits)
    qed
    then show ?thesis using Some nn
      by (simp add: put_products_def stock_nonneg_def split: option.splits)
  qed
qed

lemma post_cart_products: "products (snd (post_cart u b s)) = products s"
  by (simp add: post_cart_def Let_def split: option.splits)

lemma find_pair_None:
  "find (\<lambda>c. ci_userId c = a \<and> ci_productId c = b) cs = None \<Longrightarrow>
   (a, b) \<notin> set (map (\<lambda>c. (ci_userId c, ci_productId c)) cs)"
  by (auto simp: find_None_iff)

lemma post_cart_unique:
  assumes "cart_unique s"
  shows "cart_unique (snd (post_cart u b s))"
proof (cases "post_cart u b s = (fst (post_cart u b s), s)")
  case True
  then show ?thesis using assms by (metis snd_conv)
next
  case False
  then obtain pid q p where b: "cb_productId b = Some pid" "cb_quantity b = Some q"
    and valid: "cart_errors b = []"
    and p: "find_product (products s) pid = Some p" "\<not> p_stock p < q"
    by (auto simp: post_cart_def Let_def split: if_splits option.splits)
  show ?thesis
  proof (cases "find (\<lambda>c. ci_userId c = ru_id u \<and> ci_productId c = pid) (cartItems s)")
    case None
    from find_pair_None [OF None] assms
    show ?thesis by (simp add: post_cart_def b valid p None Let_def cart_unique_def)
  next
    case (Some e)
    show ?thesis
    proof (cases "update_first (\<lambda>c. ci_id c = ci_id e) (\<lambda>c. c\<lparr> ci_quantity := ci_quantity e + q \<rparr>) (cartItems s)")
      case None
      then show ?thesis using assms by (simp add: post_cart_def b valid p Some)
    next
      case upd: (Some cs)
      have "map (\<lambda>c. (ci_userId c, ci_productId c)) cs = map (\<lambda>c. (ci_userId c, ci_productId c)) (cartItems s)"
        by (rule update_first_map_key [OF upd]) simp
      then have "cart_unique (s\<lparr> cartItems := cs \<rparr>)" using assms by (simp add: cart_unique_def)
      then show ?thesis using assms
        by (simp add: post_cart_def b valid p Some upd split: option.splits)
    qed
  qed
qed

lemma put_cart_inv:
  assumes "cart_unique s"
  shows "cart_unique (snd (put_cart u i b s)) \<and> products (snd (put_cart u i b s)) = products s"
proof -
  have "cart_unique (s\<lparr> cartItems := cs \<rparr>)"
    if "update_first (\<lambda>c. ci_id c = i \<and> ci_userId c = ru_id u) (\<lambda>c. c\<lparr> ci_quantity := q \<rparr>) (cartItems s) = Some cs"
    for q cs
  proof -
    have "map (\<lambda>c. (ci_userId c, ci_productId c)) cs = map (\<lambda>c. (ci_userId c, ci_productId c)) (cartItems s)"
      by (rule update_first_map_key [OF that]) simp
    then show ?thesis using assms by (simp add: cart_unique_def)
  qed
  then show ?thesis using assms by (auto simp: put_cart_def split: option.splits)
qed

lemma delete_cart_inv:
  assumes "cart_unique s"
  shows "cart_unique (snd (delete_cart u i s)) \<and> products (snd (delete_cart u i s)) = products s"
proof (cases "delete_first (\<lambda>c. ci_id c = i \<and> ci_userId c = ru_id u) (cartItems s)")
  case None
  then show ?thesis using assms by (simp add: delete_cart_def)
next
  case (Some cs)
  from delete_first_distinct [OF Some assms [unfolded cart_unique_def]]
  show ?thesis using Some by (simp add: delete_cart_def cart_unique_def)
qed

lemma exec_inv:
  assumes "cart_unique s" and "stock_nonneg s" and "\<not> negative_restock r"
  shows "cart_unique (snd (exec rt r s)) \<and> stock_nonneg (snd (exec rt r s))"
proof (cases r)
  case (PostOrders u)
  then show ?thesis using post_orders_inv [OF assms(1,2)] by simp
next
  case (GetOrder u i)
  then show ?thesis using assms by simp
next
  case (BecomeSeller u)
  then show ?thesis using assms become_seller_frame [of u s]
    by (simp add: cart_unique_def stock_nonneg_def)
next
  case (PostProducts u b)
  then show ?thesis using assms post_products_inv [OF assms(2), of rt u b]
    by (simp add: cart_unique_def)
next
  case (PutProducts u i b)
  then show ?thesis using assms put_products_nonneg [of s u i b rt] put_products_frame [of rt u i b s]
    by (simp add: cart_unique_def)
next
  case (PostCart u b)
  then show ?thesis using assms post_cart_unique [OF assms(1), of u b] post_cart_products [of u b s]
    by (simp add: stock_nonneg_def)
next
  case (PutCart u i b)
  then show ?thesis using assms put_cart_inv [OF assms(1), of u i b]
    by (simp add: stock_nonneg_def)
next
  case (DeleteCart u i)
  then show ?thesis using assms delete_cart_inv [OF assms(1), of u i]
    by (simp add: stock_nonneg_def)
qed

lemma update_first_snoc_fresh:
  "\<forall>x \<in> set xs. \<not> P x \<Longrightarrow> P y \<Longrightarrow> update_first P f (xs @ [y]) = Some (xs @ [f y])"
  by (induction xs) auto

lemma post_cart_create:
  assumes "pid \<noteq> []" and "1 \<le> q"
    and "find_product (products s) pid = Some p" and "q \<le> p_stock p"
    and "find (\<lambda>c. ci_userId c = ru_id u \<and> ci_productId c = pid) (cartItems s) = None"
  shows "post_cart u \<lparr> cb_productId = Some pid, cb_quantity = Some q \<rparr> s =
           ((201, CartItemBody \<lparr> ci_id = fresh_id (map ci_id (cartItems s)), ci_userId = ru_id u,
                                 ci_productId = pid, ci_quantity = q \<rparr>),
            s\<lparr> cartItems := cartItems s @
                  [\<lparr> ci_id = fresh_id (map ci_id (cartItems s)), ci_userId = ru_id u,
                     ci_productId = pid, ci_quantity = q \<rparr>] \<rparr>)"
  using assms
  by (simp add: post_cart_def cart_errors_def quantity_errors_def notEmpty_def Let_def)

lemma post_cart_merge_last:
  assumes "pid \<noteq> []" and "1 \<le> q"
    and "find_product (products s) pid = Some p" and "q \<le> p_stock p"
    and cart: "cartItems s = xs @ [e]"
    and e: "ci_userId e = ru_id u" "ci_productId e = pid"
    and nopair: "\<forall>c \<in> set xs. \<not> (ci_userId c = ru_id u \<and> ci_productId c = pid)"
    and noid: "\<forall>c \<in> set xs. \<not> ci_id c = ci_id e"
  shows "post_cart u \<lparr> cb_productId = Some pid, cb_quantity = Some q \<rparr> s =
           ((201, CartItemBody (e\<lparr> ci_quantity := ci_quantity e + q \<rparr>)),
            s\<lparr> cartItems := xs @ [e\<lparr> ci_quantity := ci_quantity e + q \<rparr>] \<rparr>)"
proof -
  have f1: "find (\<lambda>c. ci_userId c = ru_id u \<and> ci_productId c = pid) (cartItems s) = Some e"
    unfolding cart using nopair e by (intro find_snoc_fresh) simp_all
  have f2: "update_first (\<lambda>c. ci_id c = ci_id e) (\<lambda>c. c\<lparr> ci_quantity := ci_quantity e + q \<rparr>) (cartItems s) =
      Some (xs @ [e\<lparr> ci_quantity := ci_quantity e + q \<rparr>])"
    unfolding cart using noid by (intro update_first_snoc_fresh) simp_all
  have f3: "find (\<lambda>c. ci_id c = ci_id e) (xs @ [e\<lparr> ci_quantity := ci_quantity e + q \<rparr>]) =
      Some (e\<lparr> ci_quantity := ci_quantity e + q \<rparr>)"
    using noid by (intro find_snoc_fresh) simp_all
  show ?thesis using assms(1-4)
    by (simp add: post_cart_def cart_errors_def quantity_errors_def notEmpty_def f1 f2 f3)
qed

lemma post_cart_twice:
  assumes pid: "pid \<noteq> []" and q1: "1 \<le> q1" and q2: "1 \<le> q2"
    and p: "find_product (products s) pid = Some p"
    and s1: "q1 \<le> p_stock p" and s2: "q2 \<le> p_stock p"
    and none: "find (\<lambda>c. ci_userId c = ru_id u \<and> ci_productId c = pid) (cartItems s) = None"
  shows "\<exists>r1 r2 row.
     post_cart u \<lparr> cb_productId = Some pid, cb_quantity = Some q1 \<rparr> s =
       ((201, r1), s\<lparr> cartItems := cartItems s @ [row\<lparr> ci_quantity := q1 \<rparr>] \<rparr>) \<and>
     post_cart u \<lparr> cb_productId = Some pid, cb_quantity = Some q2 \<rparr>
         (s\<lparr> cartItems := cartItems s @ [row\<lparr> ci_quantity := q1 \<rparr>] \<rparr>) =
       ((201, r2), s\<lparr> cartItems := cartItems s @ [row] \<rparr>) \<and>
     ci_userId row = ru_id u \<and> ci_productId row = pid \<and> ci_quantity row = q1 + q2 \<and>
     filter (\<lambda>c. ci_userId c = ru_id u \<and> ci_productId c = pid) (cartItems s @ [row]) = [row]"
proof -
  let ?e = "\<lparr> ci_id = fresh_id (map ci_id (cartItems s)), ci_userId = ru_id u,
              ci_productId = pid, ci_quantity = q1 \<rparr>"
  let ?s1 = "s\<lparr> cartItems := cartItems s @ [?e] \<rparr>"
  let ?row = "?e\<lparr> ci_quantity := q1 + q2 \<rparr>"
  have first: "post_cart u \<lparr> cb_productId = Some pid, cb_quantity = Some q1 \<rparr> s =
      ((201, CartItemBody ?e), ?s1)"
    by (rule post_cart_create [OF pid q1 p s1 none])
  have nopair: "\<forall>c \<in> set (cartItems s). \<not> (ci_userId c = ru_id u \<and> ci_productId c = pid)"
    using none by (simp add: find_None_iff)
  have noid: "\<forall>c \<in> set (cartItems s). \<not> ci_id c = ci_id ?e"
    using fresh_id_notin [of "map ci_id (cartItems s)"] by (metis cart_item.select_convs(1) imageI set_map)
  have p1: "find_product (products ?s1) pid = Some p" using p by simp
  have "post_cart u \<lparr> cb_productId = Some pid, cb_quantity = Some q2 \<rparr> ?s1 =
      ((201, CartItemBody (?e\<lparr> ci_quantity := ci_quantity ?e + q2 \<rparr>)),
       ?s1\<lparr> cartItems := cartItems s @ [?e\<lparr> ci_quantity := ci_quantity ?e + q2 \<rparr>] \<rparr>)"
    by (rule post_cart_merge_last [OF pid q2 p1 s2 _ _ _ nopair noid]) simp_all
  then have second: "post_cart u \<lparr> cb_productId = Some pid, cb_quantity = Some q2 \<rparr> ?s1 =
      ((201, CartItemBody ?row), s\<lparr> cartItems := cartItems s @ [?row] \<rparr>)"
    by simp
  have flt: "filter (\<lambda>c. ci_userId c = ru_id u \<and> ci_productId c = pid) (cartItems s @ [?row]) = [?row]"
    using nopair by (simp add: filter_empty_conv)
  have e: "?row\<lparr> ci_quantity := q1 \<rparr> = ?e" by simp
  show ?thesis
  proof (intro exI conjI)
    show "post_cart u \<lparr> cb_productId = Some pid, cb_quantity = Some q1 \<rparr> s =
       ((201, CartItemBody ?e), s\<lparr> cartItems := cartItems s @ [?row\<lparr> ci_quantity := q1 \<rparr>] \<rparr>)"
      using first e by simp
    show "post_cart u \<lparr> cb_productId = Some pid, cb_quantity = Some q2 \<rparr>
         (s\<lparr> cartItems := cartItems s @ [?row\<lparr> ci_quantity := q1 \<rparr>] \<rparr>) =
       ((201, CartItemBody ?row), s\<lparr> cartItems := cartItems s @ [?row] \<rparr>)"
      using second e by simp
    show "ci_userId ?row = ru_id u" by simp
    show "ci_productId ?row = pid" by simp
    show "ci_quantity ?row = q1 + q2" by simp
    show "filter (\<lambda>c. ci_userId c = ru_id u \<and> ci_productId c = pid) (cartItems s @ [?row]) = [?row]"
      by (rule flt)
  qed
qed

section \<open>Order placement\<close>

text \<open>
  C1. Let the cart table satisfy its unique key and the order items their foreign key. For a
  user whose cart is not empty and whose every cart line asks for no more than the stock
  of its product, \<^verbatim>\<open>POST /api/orders\<close> responds 201 with the created order and its items.
  The order is one new row of the user, with status PENDING and with the sum of price times
  quantity over the cart lines as its total. There is one new order item per cart line, in
  the order of the lines, with the line's product and quantity and the price the product
  has now. The stock of every ordered product is decreased by exactly the quantity of its
  line, and no other product changes. All the cart rows of the user are deleted, the carts
  of the other users stay, and so do the users.
\<close>

theorem post_orders_creates_order:
  assumes uniq: "cart_unique s" and fk: "order_fk s"
    and lines: "cart_lines u s = Some ls" and ne: "ls \<noteq> []"
    and enough: "\<forall>(c, p) \<in> set ls. ci_quantity c \<le> p_stock p"
  shows "\<exists>new items s'.
     post_orders rt u s = ((201, OrderBody new items), s') \<and>
     o_id new \<notin> set (map o_id (orders s)) \<and> o_userId new = ru_id u \<and>
     o_status new = ''PENDING'' \<and> o_total new = toDecimal rt (cart_total rt ls) \<and>
     orders s' = orders s @ [new] \<and>
     orderItems s' = orderItems s @ items \<and>
     map (\<lambda>i. (oi_orderId i, oi_productId i, oi_quantity i, oi_price i)) items =
       map (\<lambda>(c, p). (o_id new, ci_productId c, ci_quantity c, p_price p)) ls \<and>
     (\<forall>(c, p) \<in> set ls.
        find_product (products s') (ci_productId c) = Some (p\<lparr> p_stock := p_stock p - ci_quantity c \<rparr>)) \<and>
     (\<forall>j. j \<notin> ci_productId ` fst ` set ls \<longrightarrow> find_product (products s') j = find_product (products s) j) \<and>
     cartItems s' = filter (\<lambda>c. ci_userId c \<noteq> ru_id u) (cartItems s) \<and>
     users s' = users s"
proof -
  let ?oid = "fresh_id (map o_id (orders s))"
  let ?new = "\<lparr> o_id = ?oid, o_userId = ru_id u,
                  o_total = toDecimal rt (cart_total rt ls), o_status = ''PENDING'' \<rparr>"
  let ?s1 = "s\<lparr> orders := orders s @ [?new] \<rparr>"
  from post_orders_placed [OF lines ne enough, of rt] obtain s2 where
    s2: "place_items ?oid ls ?s1 = Some s2"
    and res: "post_orders rt u s =
            ((201, OrderBody ?new (filter (\<lambda>i. oi_orderId i = ?oid) (orderItems s2))),
             s2\<lparr> cartItems := filter (\<lambda>c. ci_userId c \<noteq> ru_id u) (cartItems s2) \<rparr>)"
    by blast
  let ?s' = "s2\<lparr> cartItems := filter (\<lambda>c. ci_userId c \<noteq> ru_id u) (cartItems s2) \<rparr>"
  have fresh: "?oid \<notin> set (map o_id (orders s))" by (rule fresh_id_notin)
  from place_items_frame [OF s2] have
    fr: "users s2 = users s" "cartItems s2 = cartItems s" "orders s2 = orders s @ [?new]"
    by simp_all
  from place_items_orderItems [OF s2] obtain items where
    items: "orderItems s2 = orderItems s @ items"
    and proj: "map (\<lambda>i. (oi_orderId i, oi_productId i, oi_quantity i, oi_price i)) items =
       map (\<lambda>(c, p). (?oid, ci_productId c, ci_quantity c, p_price p)) ls"
    by auto
  have "\<forall>i \<in> set (orderItems s). oi_orderId i \<noteq> ?oid"
    using fk fresh unfolding order_fk_def list_all_iff by metis
  then have old: "filter (\<lambda>i. oi_orderId i = ?oid) (orderItems s) = []"
    by (simp add: filter_empty_conv)
  have "map oi_orderId items = map (\<lambda>l. ?oid) ls"
  proof -
    have "map oi_orderId items = map fst (map (\<lambda>i. (oi_orderId i, oi_productId i, oi_quantity i, oi_price i)) items)"
      by simp
    also have "\<dots> = map (\<lambda>l. ?oid) ls" unfolding proj by (simp add: case_prod_beta)
    finally show ?thesis .
  qed
  then have "\<forall>i \<in> set items. oi_orderId i = ?oid"
    by (metis (no_types, lifting) ex_map_conv in_set_conv_nth length_map nth_map nth_mem)
  then have "filter (\<lambda>i. oi_orderId i = ?oid) items = items" by (simp add: filter_id_conv)
  with old items have body: "filter (\<lambda>i. oi_orderId i = ?oid) (orderItems s2) = items" by simp
  have dist: "distinct (map ci_productId (map fst ls))"
    using cart_unique_lines [OF uniq [unfolded cart_unique_def], of "ru_id u"]
      with_products_fst [OF lines [unfolded cart_lines_def]] by simp
  have prods: "find_product (products s2) j =
     map_option (\<lambda>q. q\<lparr> p_stock := p_stock q - ordered_qty ls j \<rparr>) (find_product (products s) j)" for j
    using place_items_products [OF s2, of j] by simp
  have dec: "\<forall>(c, p) \<in> set ls.
        find_product (products ?s') (ci_productId c) = Some (p\<lparr> p_stock := p_stock p - ci_quantity c \<rparr>)"
  proof (clarify)
    fix c p assume in_ls: "(c, p) \<in> set ls"
    have "find_product (products s) (ci_productId c) = Some p"
      using with_products_find [OF lines [unfolded cart_lines_def] in_ls] .
    moreover have "ordered_qty ls (ci_productId c) = ci_quantity c"
      using ordered_qty_distinct [OF dist in_ls] .
    ultimately show "find_product (products ?s') (ci_productId c) = Some (p\<lparr> p_stock := p_stock p - ci_quantity c \<rparr>)"
      using prods [of "ci_productId c"] by simp
  qed
  have others: "\<forall>j. j \<notin> ci_productId ` fst ` set ls \<longrightarrow> find_product (products ?s') j = find_product (products s) j"
  proof (intro allI impI)
    fix j assume "j \<notin> ci_productId ` fst ` set ls"
    then have "ordered_qty ls j = 0" by (rule ordered_qty_notin)
    then show "find_product (products ?s') j = find_product (products s) j"
      using prods [of j] by (simp add: option.map_ident)
  qed
  show ?thesis
  proof (intro exI conjI)
    show "post_orders rt u s = ((201, OrderBody ?new items), ?s')" using res body by simp
    show "o_id ?new \<notin> set (map o_id (orders s))" using fresh by simp
    show "o_userId ?new = ru_id u" by simp
    show "o_status ?new = ''PENDING''" by simp
    show "o_total ?new = toDecimal rt (cart_total rt ls)" by simp
    show "orders ?s' = orders s @ [?new]" using fr by simp
    show "orderItems ?s' = orderItems s @ items" using items by simp
    show "map (\<lambda>i. (oi_orderId i, oi_productId i, oi_quantity i, oi_price i)) items =
       map (\<lambda>(c, p). (o_id ?new, ci_productId c, ci_quantity c, p_price p)) ls" using proj by simp
    show "\<forall>(c, p) \<in> set ls.
        find_product (products ?s') (ci_productId c) = Some (p\<lparr> p_stock := p_stock p - ci_quantity c \<rparr>)"
      by (rule dec)
    show "\<forall>j. j \<notin> ci_productId ` fst ` set ls \<longrightarrow> find_product (products ?s') j = find_product (products s) j"
      by (rule others)
    show "cartItems ?s' = filter (\<lambda>c. ci_userId c \<noteq> ru_id u) (cartItems s)" using fr by simp
    show "users ?s' = users s" using fr by simp
  qed
qed

theorem post_orders_creates_order_witness:
  "cart_unique shop \<and> order_fk shop \<and> cart_lines alice shop = Some [(lineA, productA)] \<and>
   (\<exists>new items s'. post_orders cents alice shop = ((201, OrderBody new items), s') \<and>
      o_status new = ''PENDING'' \<and> o_total new = 2000 \<and> length items = 1 \<and>
      find_product (products s') ''pA'' = Some (productA\<lparr> p_stock := 3 \<rparr>) \<and> cartItems s' = [])"
proof -
  have h1: "cart_unique shop" by (simp add: cart_unique_def example_defs)
  have h2: "order_fk shop" by (simp add: order_fk_def example_defs)
  have h3: "cart_lines alice shop = Some [(lineA, productA)]"
    by (simp add: cart_lines_def find_product_def example_defs)
  have h4: "[(lineA, productA)] \<noteq> []" by simp
  have h5: "\<forall>(c, p) \<in> set [(lineA, productA)]. ci_quantity c \<le> p_stock p"
    by (simp add: example_defs)
  from post_orders_creates_order [OF h1 h2 h3 h4 h5, of cents] obtain new items s' where
    r: "post_orders cents alice shop = ((201, OrderBody new items), s')"
    and st: "o_status new = ''PENDING''"
    and tot: "o_total new = toDecimal cents (cart_total cents [(lineA, productA)])"
    and its: "map (\<lambda>i. (oi_orderId i, oi_productId i, oi_quantity i, oi_price i)) items =
       map (\<lambda>(c, p). (o_id new, ci_productId c, ci_quantity c, p_price p)) [(lineA, productA)]"
    and dec: "\<forall>(c, p) \<in> set [(lineA, productA)].
        find_product (products s') (ci_productId c) = Some (p\<lparr> p_stock := p_stock p - ci_quantity c \<rparr>)"
    and cart: "cartItems s' = filter (\<lambda>c. ci_userId c \<noteq> ru_id alice) (cartItems shop)"
    by (elim exE conjE) (rule that)
  have t: "o_total new = 2000" using tot by (simp add: cart_total_def example_defs)
  have "length (map (\<lambda>i. (oi_orderId i, oi_productId i, oi_quantity i, oi_price i)) items) =
      length (map (\<lambda>(c, p). (o_id new, ci_productId c, ci_quantity c, p_price p)) [(lineA, productA)])"
    using its by (rule arg_cong)
  then have l: "length items = 1" by simp
  have d: "find_product (products s') ''pA'' = Some (productA\<lparr> p_stock := 3 \<rparr>)"
    using dec by (simp add: example_defs)
  have c: "cartItems s' = []" using cart by (simp add: example_defs)
  have "\<exists>new items s'. post_orders cents alice shop = ((201, OrderBody new items), s') \<and>
      o_status new = ''PENDING'' \<and> o_total new = 2000 \<and> length items = 1 \<and>
      find_product (products s') ''pA'' = Some (productA\<lparr> p_stock := 3 \<rparr>) \<and> cartItems s' = []"
    using r st t l d c by (intro exI [of _ new] exI [of _ items] exI [of _ s']) simp
  with h1 h2 h3 show ?thesis by simp
qed

text \<open>
  C2. When a line of the user's cart asks for more than the stock of its product,
  \<^verbatim>\<open>POST /api/orders\<close> responds 400, naming a product that is short, and writes nothing:
  the state after the request is the state before it.
\<close>

theorem post_orders_insufficient_stock:
  assumes lines: "cart_lines u s = Some ls"
    and short: "(c0, p0) \<in> set ls" "p_stock p0 < ci_quantity c0"
  shows "\<exists>c p. (c, p) \<in> set ls \<and> p_stock p < ci_quantity c \<and>
           post_orders rt u s = ((400, ErrorMsg (''Insufficient stock for '' @ p_name p)), s)"
proof -
  from check_stock_Inl [OF short, of rt "num_zero rt"] obtain c p where
    cp: "(c, p) \<in> set ls" "p_stock p < ci_quantity c"
    and chk: "check_stock rt ls (num_zero rt) = Inl (p_name p)"
    by blast
  from short(1) have "ls \<noteq> []" by auto
  then have "post_orders rt u s = ((400, ErrorMsg (''Insufficient stock for '' @ p_name p)), s)"
    by (simp add: post_orders_def lines chk)
  with cp show ?thesis by blast
qed

theorem post_orders_insufficient_stock_witness:
  "cart_lines alice shop_short = Some [(lineA\<lparr> ci_quantity := 7 \<rparr>, productA)] \<and>
   p_stock productA < ci_quantity (lineA\<lparr> ci_quantity := 7 \<rparr>) \<and>
   post_orders cents alice shop_short = ((400, ErrorMsg ''Insufficient stock for A''), shop_short)"
proof -
  have h1: "cart_lines alice shop_short = Some [(lineA\<lparr> ci_quantity := 7 \<rparr>, productA)]"
    by (simp add: cart_lines_def find_product_def example_defs)
  have h2: "(lineA\<lparr> ci_quantity := 7 \<rparr>, productA) \<in> set [(lineA\<lparr> ci_quantity := 7 \<rparr>, productA)]" by simp
  have h3: "p_stock productA < ci_quantity (lineA\<lparr> ci_quantity := 7 \<rparr>)" by (simp add: example_defs)
  from post_orders_insufficient_stock [OF h1 h2 h3, of cents] obtain c p where
    "(c, p) \<in> set [(lineA\<lparr> ci_quantity := 7 \<rparr>, productA)]"
    "post_orders cents alice shop_short = ((400, ErrorMsg (''Insufficient stock for '' @ p_name p)), shop_short)"
    by blast
  then have "post_orders cents alice shop_short = ((400, ErrorMsg ''Insufficient stock for A''), shop_short)"
    by (simp add: productA_def)
  with h1 h3 show ?thesis by blast
qed

text \<open>
  C4. For a user who has no cart row, \<^verbatim>\<open>POST /api/orders\<close> responds 400 with the error
  \<^verbatim>\<open>Cart is empty\<close> and leaves the state as it is.
\<close>

theorem post_orders_empty_cart:
  assumes "filter (\<lambda>c. ci_userId c = ru_id u) (cartItems s) = []"
  shows "post_orders rt u s = ((400, ErrorMsg ''Cart is empty''), s)"
  using assms by (simp add: post_orders_def cart_lines_def)

theorem post_orders_empty_cart_witness:
  "filter (\<lambda>c. ci_userId c = ru_id bob) (cartItems shop) = [] \<and>
   post_orders cents bob shop = ((400, ErrorMsg ''Cart is empty''), shop)"
proof -
  have h: "filter (\<lambda>c. ci_userId c = ru_id bob) (cartItems shop) = []" by (simp add: example_defs)
  from post_orders_empty_cart [OF h, of cents] h show ?thesis by blast
qed

section \<open>Stock is never negative\<close>

text \<open>
  Order placement never makes a stock negative, and neither does any other request, with
  one exception: a product update of an administrator that sets a negative stock.
\<close>

lemma stock_nonneg_run:
  assumes "stock_nonneg s" and "cart_unique s" and "\<forall>r \<in> set rs. \<not> negative_restock r"
  shows "stock_nonneg (run rt rs s)"
  using assms
proof (induction rs arbitrary: s)
  case Nil
  then show ?case by simp
next
  case (Cons r rs)
  from exec_inv [of s r rt] Cons.prems
  have "cart_unique (snd (exec rt r s))" "stock_nonneg (snd (exec rt r s))" by simp_all
  with Cons.IH [of "snd (exec rt r s)"] Cons.prems(3) show ?case by simp
qed

text \<open>
  C3. No product's stock is negative in any state that a sequential execution reaches from
  a state in which every stock is non-negative. The code breaks this in one place: the
  product update of an administrator writes the stock it is given without a check, so the
  request with stock \<open>- 1\<close> leaves the product with a negative stock. Creating a product
  with the same stock is rejected with \<^verbatim>\<open>Stock must be a non-negative integer\<close>.
\<close>

theorem put_products_negative_stock:
  "stock_nonneg shop \<and> cart_unique shop \<and>
   map p_stock (products (run cents [PutProducts root ''pA'' (no_fields\<lparr> pb_stock := Some (- 1) \<rparr>)] shop)) = [- 1] \<and>
   \<not> stock_nonneg (run cents [PutProducts root ''pA'' (no_fields\<lparr> pb_stock := Some (- 1) \<rparr>)] shop) \<and>
   post_products cents root
       (no_fields\<lparr> pb_name := Some ''B'', pb_price := Some 1, pb_categoryId := Some ''c1'',
                   pb_stock := Some (- 1) \<rparr>) shop =
     ((400, ValidationErrors [''Stock must be a non-negative integer'']), shop)"
  by (simp add: stock_nonneg_def cart_unique_def put_products_def put_data_def find_product_def
      post_products_def product_errors_def notEmpty_def example_defs)

section \<open>The cart\<close>

text \<open>
  C5. When a user has no cart row for a product and adds the product twice, each request
  passing its checks (the validators, the product exists, the stock is at least the
  quantity asked for), both requests respond 201 and the cart then has exactly one row for
  the user and the product; its quantity is the sum of the two quantities. The other rows
  of the cart are as before.
\<close>

theorem post_cart_merges:
  assumes "pid \<noteq> []" and "1 \<le> q1" and "1 \<le> q2"
    and "find_product (products s) pid = Some p"
    and "q1 \<le> p_stock p" and "q2 \<le> p_stock p"
    and "find (\<lambda>c. ci_userId c = ru_id u \<and> ci_productId c = pid) (cartItems s) = None"
  shows "\<exists>r1 s1 r2 s2 row.
     post_cart u \<lparr> cb_productId = Some pid, cb_quantity = Some q1 \<rparr> s = ((201, r1), s1) \<and>
     post_cart u \<lparr> cb_productId = Some pid, cb_quantity = Some q2 \<rparr> s1 = ((201, r2), s2) \<and>
     filter (\<lambda>c. ci_userId c = ru_id u \<and> ci_productId c = pid) (cartItems s2) = [row] \<and>
     ci_quantity row = q1 + q2 \<and>
     filter (\<lambda>c. \<not> (ci_userId c = ru_id u \<and> ci_productId c = pid)) (cartItems s2) = cartItems s"
proof -
  from post_cart_twice [OF assms] obtain r1 r2 row where
    a: "post_cart u \<lparr> cb_productId = Some pid, cb_quantity = Some q1 \<rparr> s =
       ((201, r1), s\<lparr> cartItems := cartItems s @ [row\<lparr> ci_quantity := q1 \<rparr>] \<rparr>)"
    and b: "post_cart u \<lparr> cb_productId = Some pid, cb_quantity = Some q2 \<rparr>
         (s\<lparr> cartItems := cartItems s @ [row\<lparr> ci_quantity := q1 \<rparr>] \<rparr>) =
       ((201, r2), s\<lparr> cartItems := cartItems s @ [row] \<rparr>)"
    and c: "ci_userId row = ru_id u" "ci_productId row = pid" "ci_quantity row = q1 + q2"
    and d: "filter (\<lambda>c. ci_userId c = ru_id u \<and> ci_productId c = pid) (cartItems s @ [row]) = [row]"
    by blast
  have "\<forall>c \<in> set (cartItems s). \<not> (ci_userId c = ru_id u \<and> ci_productId c = pid)"
    using assms(7) by (simp add: find_None_iff)
  then have e: "filter (\<lambda>c. \<not> (ci_userId c = ru_id u \<and> ci_productId c = pid)) (cartItems s @ [row]) = cartItems s"
    using c by (simp add: filter_id_conv)
  let ?s1 = "s\<lparr> cartItems := cartItems s @ [row\<lparr> ci_quantity := q1 \<rparr>] \<rparr>"
  let ?s2 = "s\<lparr> cartItems := cartItems s @ [row] \<rparr>"
  have "post_cart u \<lparr> cb_productId = Some pid, cb_quantity = Some q1 \<rparr> s = ((201, r1), ?s1) \<and>
     post_cart u \<lparr> cb_productId = Some pid, cb_quantity = Some q2 \<rparr> ?s1 = ((201, r2), ?s2) \<and>
     filter (\<lambda>c. ci_userId c = ru_id u \<and> ci_productId c = pid) (cartItems ?s2) = [row] \<and>
     ci_quantity row = q1 + q2 \<and>
     filter (\<lambda>c. \<not> (ci_userId c = ru_id u \<and> ci_productId c = pid)) (cartItems ?s2) = cartItems s"
    using a b c(3) d e by simp
  then show ?thesis by blast
qed

theorem post_cart_merges_witness:
  "find_product (products shop) ''pA'' = Some productA \<and>
   find (\<lambda>c. ci_userId c = ru_id bob \<and> ci_productId c = ''pA'') (cartItems shop) = None \<and>
   (\<exists>r1 s1 r2 s2 row.
     post_cart bob \<lparr> cb_productId = Some ''pA'', cb_quantity = Some 2 \<rparr> shop = ((201, r1), s1) \<and>
     post_cart bob \<lparr> cb_productId = Some ''pA'', cb_quantity = Some 3 \<rparr> s1 = ((201, r2), s2) \<and>
     filter (\<lambda>c. ci_userId c = ru_id bob \<and> ci_productId c = ''pA'') (cartItems s2) = [row] \<and>
     ci_quantity row = 5)"
proof -
  have h1: "''pA'' \<noteq> []" by simp
  have h2: "(1::int) \<le> 2" by simp
  have h3: "(1::int) \<le> 3" by simp
  have h4: "find_product (products shop) ''pA'' = Some productA"
    by (simp add: find_product_def example_defs)
  have h5: "2 \<le> p_stock productA" by (simp add: example_defs)
  have h6: "3 \<le> p_stock productA" by (simp add: example_defs)
  have h7: "find (\<lambda>c. ci_userId c = ru_id bob \<and> ci_productId c = ''pA'') (cartItems shop) = None"
    by (simp add: example_defs)
  from post_cart_merges [OF h1 h2 h3 h4 h5 h6 h7] obtain r1 s1 r2 s2 row where
    "post_cart bob \<lparr> cb_productId = Some ''pA'', cb_quantity = Some 2 \<rparr> shop = ((201, r1), s1)"
    "post_cart bob \<lparr> cb_productId = Some ''pA'', cb_quantity = Some 3 \<rparr> s1 = ((201, r2), s2)"
    "filter (\<lambda>c. ci_userId c = ru_id bob \<and> ci_productId c = ''pA'') (cartItems s2) = [row]"
    "ci_quantity row = 2 + 3"
    by blast
  then have "\<exists>r1 s1 r2 s2 row.
     post_cart bob \<lparr> cb_productId = Some ''pA'', cb_quantity = Some 2 \<rparr> shop = ((201, r1), s1) \<and>
     post_cart bob \<lparr> cb_productId = Some ''pA'', cb_quantity = Some 3 \<rparr> s1 = ((201, r2), s2) \<and>
     filter (\<lambda>c. ci_userId c = ru_id bob \<and> ci_productId c = ''pA'') (cartItems s2) = [row] \<and>
     ci_quantity row = 5"
    by (intro exI [of _ r1] exI [of _ s1] exI [of _ r2] exI [of _ s2] exI [of _ row]) simp
  with h4 h7 show ?thesis by blast
qed

text \<open>
  C9. \<^verbatim>\<open>POST /api/cart\<close> responds 400 with the error \<^verbatim>\<open>Insufficient stock\<close> exactly when
  the request passed the validators (the stock check is reached only then), the product
  exists and its stock is less than the quantity the request asks for. The quantity the
  cart already holds is not part of the condition: when a user without a row for the
  product adds the quantity \<open>q\<close> twice, with \<open>q \<le> stock < 2 * q\<close>, both requests are
  accepted and the one cart row then holds \<open>2 * q\<close>, more than the stock, which is
  unchanged.
\<close>

theorem post_cart_stock_check:
  "(fst (post_cart u b s) = (400, ErrorMsg ''Insufficient stock'') \<longleftrightarrow>
      cart_errors b = [] \<and>
      (\<exists>pid q p. cb_productId b = Some pid \<and> cb_quantity b = Some q \<and>
                 find_product (products s) pid = Some p \<and> p_stock p < q)) \<and>
   (pid \<noteq> [] \<longrightarrow> find_product (products s) pid = Some p \<longrightarrow>
    q \<le> p_stock p \<longrightarrow> p_stock p < 2 * q \<longrightarrow>
    find (\<lambda>c. ci_userId c = ru_id u \<and> ci_productId c = pid) (cartItems s) = None \<longrightarrow>
    (\<exists>r1 s1 r2 s2 row.
       post_cart u \<lparr> cb_productId = Some pid, cb_quantity = Some q \<rparr> s = ((201, r1), s1) \<and>
       post_cart u \<lparr> cb_productId = Some pid, cb_quantity = Some q \<rparr> s1 = ((201, r2), s2) \<and>
       filter (\<lambda>c. ci_userId c = ru_id u \<and> ci_productId c = pid) (cartItems s2) = [row] \<and>
       ci_quantity row = 2 * q \<and>
       find_product (products s2) pid = Some p \<and> p_stock p < ci_quantity row))"
proof (intro conjI impI)
  show "fst (post_cart u b s) = (400, ErrorMsg ''Insufficient stock'') \<longleftrightarrow>
      cart_errors b = [] \<and>
      (\<exists>pid q p. cb_productId b = Some pid \<and> cb_quantity b = Some q \<and>
                 find_product (products s) pid = Some p \<and> p_stock p < q)"
    by (auto simp: post_cart_def Let_def server_error_def split: option.splits)
next
  assume pid: "pid \<noteq> []" and p: "find_product (products s) pid = Some p"
    and le: "q \<le> p_stock p" and lt: "p_stock p < 2 * q"
    and none: "find (\<lambda>c. ci_userId c = ru_id u \<and> ci_productId c = pid) (cartItems s) = None"
  from le lt have q: "1 \<le> q" by simp
  from post_cart_twice [OF pid q q p le le none] obtain r1 r2 row where
    a: "post_cart u \<lparr> cb_productId = Some pid, cb_quantity = Some q \<rparr> s =
       ((201, r1), s\<lparr> cartItems := cartItems s @ [row\<lparr> ci_quantity := q \<rparr>] \<rparr>)"
    and b: "post_cart u \<lparr> cb_productId = Some pid, cb_quantity = Some q \<rparr>
         (s\<lparr> cartItems := cartItems s @ [row\<lparr> ci_quantity := q \<rparr>] \<rparr>) =
       ((201, r2), s\<lparr> cartItems := cartItems s @ [row] \<rparr>)"
    and c: "ci_quantity row = q + q"
    and d: "filter (\<lambda>c. ci_userId c = ru_id u \<and> ci_productId c = pid) (cartItems s @ [row]) = [row]"
    by blast
  show "\<exists>r1 s1 r2 s2 row.
       post_cart u \<lparr> cb_productId = Some pid, cb_quantity = Some q \<rparr> s = ((201, r1), s1) \<and>
       post_cart u \<lparr> cb_productId = Some pid, cb_quantity = Some q \<rparr> s1 = ((201, r2), s2) \<and>
       filter (\<lambda>c. ci_userId c = ru_id u \<and> ci_productId c = pid) (cartItems s2) = [row] \<and>
       ci_quantity row = 2 * q \<and>
       find_product (products s2) pid = Some p \<and> p_stock p < ci_quantity row"
  proof (intro exI conjI)
    show "post_cart u \<lparr> cb_productId = Some pid, cb_quantity = Some q \<rparr> s =
       ((201, r1), s\<lparr> cartItems := cartItems s @ [row\<lparr> ci_quantity := q \<rparr>] \<rparr>)" by (rule a)
    show "post_cart u \<lparr> cb_productId = Some pid, cb_quantity = Some q \<rparr>
         (s\<lparr> cartItems := cartItems s @ [row\<lparr> ci_quantity := q \<rparr>] \<rparr>) =
       ((201, r2), s\<lparr> cartItems := cartItems s @ [row] \<rparr>)" by (rule b)
    show "filter (\<lambda>c. ci_userId c = ru_id u \<and> ci_productId c = pid)
            (cartItems (s\<lparr> cartItems := cartItems s @ [row] \<rparr>)) = [row]" using d by simp
    show "ci_quantity row = 2 * q" using c by simp
    show "find_product (products (s\<lparr> cartItems := cartItems s @ [row] \<rparr>)) pid = Some p" using p by simp
    show "p_stock p < ci_quantity row" using c lt by simp
  qed
qed

theorem post_cart_stock_check_witness:
  "find_product (products shop) ''pA'' = Some productA \<and>
   3 \<le> p_stock productA \<and> p_stock productA < 2 * 3 \<and>
   fst (post_cart bob \<lparr> cb_productId = Some ''pA'', cb_quantity = Some 6 \<rparr> shop) =
     (400, ErrorMsg ''Insufficient stock'') \<and>
   (\<exists>r1 s1 r2 s2 row.
       post_cart bob \<lparr> cb_productId = Some ''pA'', cb_quantity = Some 3 \<rparr> shop = ((201, r1), s1) \<and>
       post_cart bob \<lparr> cb_productId = Some ''pA'', cb_quantity = Some 3 \<rparr> s1 = ((201, r2), s2) \<and>
       filter (\<lambda>c. ci_userId c = ru_id bob \<and> ci_productId c = ''pA'') (cartItems s2) = [row] \<and>
       ci_quantity row = 2 * 3 \<and>
       find_product (products s2) ''pA'' = Some productA \<and> p_stock productA < ci_quantity row)"
proof -
  have h1: "''pA'' \<noteq> []" by simp
  have h2: "find_product (products shop) ''pA'' = Some productA"
    by (simp add: find_product_def example_defs)
  have h3: "3 \<le> p_stock productA" by (simp add: example_defs)
  have h4: "p_stock productA < 2 * 3" by (simp add: example_defs)
  have h5: "find (\<lambda>c. ci_userId c = ru_id bob \<and> ci_productId c = ''pA'') (cartItems shop) = None"
    by (simp add: example_defs)
  have h6: "cart_errors \<lparr> cb_productId = Some ''pA'', cb_quantity = Some 6 \<rparr> = [] \<and>
      (\<exists>pid q p. cb_productId \<lparr> cb_productId = Some ''pA'', cb_quantity = Some 6 \<rparr> = Some pid \<and>
                 cb_quantity \<lparr> cb_productId = Some ''pA'', cb_quantity = Some 6 \<rparr> = Some q \<and>
                 find_product (products shop) pid = Some p \<and> p_stock p < q)"
    using h2 by (simp add: cart_errors_def quantity_errors_def notEmpty_def productA_def)
  note inst = post_cart_stock_check [of bob _ shop "''pA''" productA 3]
  from inst [of "\<lparr> cb_productId = Some ''pA'', cb_quantity = Some 6 \<rparr>"] h6
  have a: "fst (post_cart bob \<lparr> cb_productId = Some ''pA'', cb_quantity = Some 6 \<rparr> shop) =
     (400, ErrorMsg ''Insufficient stock'')" by blast
  from inst [of "\<lparr> cb_productId = Some ''pA'', cb_quantity = Some 6 \<rparr>"] h1 h2 h3 h4 h5
  have b: "\<exists>r1 s1 r2 s2 row.
       post_cart bob \<lparr> cb_productId = Some ''pA'', cb_quantity = Some 3 \<rparr> shop = ((201, r1), s1) \<and>
       post_cart bob \<lparr> cb_productId = Some ''pA'', cb_quantity = Some 3 \<rparr> s1 = ((201, r2), s2) \<and>
       filter (\<lambda>c. ci_userId c = ru_id bob \<and> ci_productId c = ''pA'') (cartItems s2) = [row] \<and>
       ci_quantity row = 2 * 3 \<and>
       find_product (products s2) ''pA'' = Some productA \<and> p_stock productA < ci_quantity row"
    by blast
  from h2 h3 h4 a b show ?thesis by blast
qed

section \<open>Products\<close>

text \<open>
  C6. The price of an order item is a copy: \<^verbatim>\<open>PUT /api/products/:id\<close> leaves every order
  and every order item as it is, whatever the request, so the totals and the item prices
  of the orders do not change, and reading an order returns what it returned before.
\<close>

theorem put_products_keeps_orders:
  "orders (snd (put_products rt u i b s)) = orders s \<and>
   orderItems (snd (put_products rt u i b s)) = orderItems s \<and>
   get_order v j (snd (put_products rt u i b s)) = get_order v j s"
proof -
  have "orders (snd (put_products rt u i b s)) = orders s"
    and "orderItems (snd (put_products rt u i b s)) = orderItems s"
    using put_products_frame [of rt u i b s] by simp_all
  then show ?thesis by (simp add: get_order_def order_body_def split: option.splits)
qed

theorem put_products_keeps_orders_witness:
  "map p_price (products (snd (put_products cents root ''pA'' (no_fields\<lparr> pb_price := Some 1500 \<rparr>) shop_ordered))) = [1500] \<and>
   orders (snd (put_products cents root ''pA'' (no_fields\<lparr> pb_price := Some 1500 \<rparr>) shop_ordered)) = orders shop_ordered \<and>
   map o_total (orders shop_ordered) = [3000] \<and>
   map oi_price (orderItems (snd (put_products cents root ''pA'' (no_fields\<lparr> pb_price := Some 1500 \<rparr>) shop_ordered))) = [1000]"
proof -
  let ?s' = "snd (put_products cents root ''pA'' (no_fields\<lparr> pb_price := Some 1500 \<rparr>) shop_ordered)"
  have a: "map p_price (products ?s') = [1500]"
    by (simp add: put_products_def put_data_def find_product_def notEmpty_def example_defs)
  from put_products_keeps_orders [of cents root "''pA''" "no_fields\<lparr> pb_price := Some 1500 \<rparr>" shop_ordered]
  have b: "orders ?s' = orders shop_ordered" and c: "orderItems ?s' = orderItems shop_ordered"
    by simp_all
  have d: "map o_total (orders shop_ordered) = [3000]" by (simp add: example_defs)
  have e: "map oi_price (orderItems shop_ordered) = [1000]" by (simp add: example_defs)
  from a b c d e show ?thesis by simp
qed

text \<open>
  C7. For a user whose role is not ADMIN, \<^verbatim>\<open>PUT /api/products/:id\<close> responds 403 with the
  error \<^verbatim>\<open>Access denied. Admin only.\<close> and leaves the state as it is.
\<close>

theorem put_products_admin_only:
  assumes "ru_role u \<noteq> ADMIN"
  shows "put_products rt u i b s = ((403, ErrorMsg ''Access denied. Admin only.''), s)"
  using assms by (simp add: put_products_def)

theorem put_products_admin_only_witness:
  "ru_role alice \<noteq> ADMIN \<and>
   put_products cents alice ''pA'' (no_fields\<lparr> pb_price := Some 1 \<rparr>) shop =
     ((403, ErrorMsg ''Access denied. Admin only.''), shop)"
proof -
  have h: "ru_role alice \<noteq> ADMIN" by (simp add: example_defs)
  from put_products_admin_only [OF h] h show ?thesis by blast
qed

section \<open>Reading an order\<close>

text \<open>
  C8. \<^verbatim>\<open>GET /api/orders/:id\<close> responds 404 with the error \<^verbatim>\<open>Order not found\<close> exactly
  when no order has both the identifier asked for and the requesting user as its owner;
  so an order of another user gets the same response as an identifier that no order has.
  An order that is returned has the identifier asked for and belongs to the requesting
  user, and it comes with its own items. There is no third response.
\<close>

theorem get_order_scoped:
  "(get_order u i s = (404, ErrorMsg ''Order not found'') \<longleftrightarrow>
      (\<forall>x \<in> set (orders s). o_id x = i \<longrightarrow> o_userId x \<noteq> ru_id u)) \<and>
   (\<forall>x items. get_order u i s = (200, OrderBody x items) \<longrightarrow>
      x \<in> set (orders s) \<and> o_id x = i \<and> o_userId x = ru_id u \<and>
      items = filter (\<lambda>k. oi_orderId k = i) (orderItems s)) \<and>
   (fst (get_order u i s) = 200 \<or> get_order u i s = (404, ErrorMsg ''Order not found''))"
proof (cases "find (\<lambda>x. o_id x = i \<and> o_userId x = ru_id u) (orders s)")
  case None
  then have "\<forall>x \<in> set (orders s). o_id x = i \<longrightarrow> o_userId x \<noteq> ru_id u"
    by (auto simp: find_None_iff)
  then show ?thesis using None by (simp add: get_order_def)
next
  case (Some x)
  then have "x \<in> set (orders s)" "o_id x = i" "o_userId x = ru_id u"
    by (auto simp: find_Some_iff)
  then show ?thesis using Some by (auto simp: get_order_def order_body_def)
qed

theorem get_order_scoped_witness:
  "map (\<lambda>x. (o_id x, o_userId x)) (orders shop_ordered) = [(''o1'', ru_id bob)] \<and>
   ru_id alice \<noteq> ru_id bob \<and>
   get_order alice ''o1'' shop_ordered = (404, ErrorMsg ''Order not found'') \<and>
   get_order alice ''o2'' shop_ordered = (404, ErrorMsg ''Order not found'') \<and>
   fst (get_order bob ''o1'' shop_ordered) = 200"
proof -
  have h0: "map (\<lambda>x. (o_id x, o_userId x)) (orders shop_ordered) = [(''o1'', ru_id bob)]"
    "ru_id alice \<noteq> ru_id bob"
    by (simp_all add: example_defs)
  have h1: "\<forall>x \<in> set (orders shop_ordered). o_id x = ''o1'' \<longrightarrow> o_userId x \<noteq> ru_id alice"
    by (simp add: example_defs)
  have h2: "\<forall>x \<in> set (orders shop_ordered). o_id x = ''o2'' \<longrightarrow> o_userId x \<noteq> ru_id alice"
    by (simp add: example_defs)
  have h3: "\<not> (\<forall>x \<in> set (orders shop_ordered). o_id x = ''o1'' \<longrightarrow> o_userId x \<noteq> ru_id bob)"
    by (simp add: example_defs)
  from get_order_scoped [of alice "''o1''" shop_ordered] h1
  have a: "get_order alice ''o1'' shop_ordered = (404, ErrorMsg ''Order not found'')" by blast
  from get_order_scoped [of alice "''o2''" shop_ordered] h2
  have b: "get_order alice ''o2'' shop_ordered = (404, ErrorMsg ''Order not found'')" by blast
  from get_order_scoped [of bob "''o1''" shop_ordered] h3
  have c: "fst (get_order bob ''o1'' shop_ordered) = 200" by blast
  from h0 a b c show ?thesis by blast
qed

section \<open>Becoming a seller\<close>

lemma become_seller_result:
  "become_seller u s =
     ((if ru_role u = SELLER then (400, ErrorMsg ''User is already a seller'') else server_error), s)"
  by (simp add: become_seller_def Prisma_Role_def)

text \<open>
  C10. \<^verbatim>\<open>POST /api/users/become-seller\<close> responds 400 with the error
  \<^verbatim>\<open>User is already a seller\<close> when the role of the requesting user is SELLER, and the
  state is unchanged. For every other role the claim has the row of the user set to SELLER.
  The handler does not do that: the expression for the new role throws before the update
  is issued, so a user and an administrator alike get 500 with the error
  \<^verbatim>\<open>Server error\<close>, and their rows keep the roles they had.
\<close>

theorem become_seller_throws:
  "become_seller alice shop = ((500, ErrorMsg ''Server error''), shop) \<and>
   become_seller root shop = ((500, ErrorMsg ''Server error''), shop) \<and>
   map u_role (users (snd (become_seller root shop))) = [ADMIN, USER, USER] \<and>
   become_seller (alice\<lparr> ru_role := SELLER \<rparr>) shop =
     ((400, ErrorMsg ''User is already a seller''), shop)"
  by (simp add: become_seller_result server_error_def example_defs)

end
